theory Spec2Isabelle
  imports Main
begin

section \<open>Errors\<close>

text \<open>
  A Go function that returns \<open>(v, error)\<close> is modelled with the sum type
  \<open>error + 'a\<close>.  \<open>Error tag\<close> stands for an error value built by
  \<open>fmt.Errorf\<close>; the tag names the function that built it (the formatted
  message is not modelled).  Run-time panics of the Go program are values too.
\<close>

datatype error =
    Error string
  | NilDereference
  | IndexOutOfRange
  | SliceBoundsOutOfRange
  | NilMapAssignment

section \<open>Lexical primitives\<close>

text \<open>
  A \<open>time.Time\<close> is an instant (nanoseconds), a zone offset, and what else
  the representation of the value holds (the reading of the monotonic clock,
  the pointer to the location): \<open>layout\<close>.  \<open>After\<close> and \<open>Before\<close> compare
  instants only.  \<open>reflect.DeepEqual\<close> compares the representation, so two
  times are deeply equal iff all three components agree: the same instant in
  the same zone, built in another way, is another value.
\<close>

datatype time = Time (instant: int) (zone: int) (layout: nat)

definition After :: "time \<Rightarrow> time \<Rightarrow> bool" where
  "After t u = (instant u < instant t)"

definition Before :: "time \<Rightarrow> time \<Rightarrow> bool" where
  "Before t u = (instant t < instant u)"

text \<open>Modelled from the spec: the node package is not part of the sources.
  A node is the pair of its type path and its id; its text is \<open>type<id>\<close>.\<close>

datatype node = Node (node_Type: string) (node_ID: string)

definition node_String :: "node \<Rightarrow> string" where
  "node_String n = node_Type n @ ''<'' @ node_ID n @ ''>''"

text \<open>Modelled from the spec: the literal package is not part of the sources.
  A literal is a typed scalar, kept as its type name and the text of its value;
  its text is \<open>"value"^^type:name\<close>.\<close>

datatype literal = Literal (literal_Type: string) (literal_Value: string)

definition literal_String :: "literal \<Rightarrow> string" where
  "literal_String l =
     [CHR 0x22] @ literal_Value l @ [CHR 0x22] @ ''^^type:'' @ literal_Type l"

subsection \<open>Predicates (package predicate)\<close>

datatype Type = Immutable | Temporal

text \<open>The struct \<open>Predicate {id ID; anchor *time.Time}\<close>; a nil anchor is \<open>None\<close>.\<close>

record Predicate =
  pred_id :: string
  anchor :: "time option"

definition predicate_ID :: "Predicate \<Rightarrow> string" where
  "predicate_ID p = pred_id p"

definition predicate_Type :: "Predicate \<Rightarrow> Type" where
  "predicate_Type p = (if anchor p = None then Immutable else Temporal)"

definition TimeAnchor :: "Predicate \<Rightarrow> error + time" where
  "TimeAnchor p =
     (case anchor p of
        None \<Rightarrow> Inl (Error ''predicate.TimeAnchor'')
      | Some t \<Rightarrow> Inr t)"

definition NewImmutable :: "string \<Rightarrow> error + Predicate" where
  "NewImmutable i =
     (if i = [] then Inl (Error ''predicate.NewImmutable'')
      else Inr \<lparr>pred_id = i, anchor = None\<rparr>)"

definition NewTemporal :: "string \<Rightarrow> time \<Rightarrow> error + Predicate" where
  "NewTemporal i t =
     (if i = [] then Inl (Error ''predicate.NewTemporal'')
      else Inr \<lparr>pred_id = i, anchor = Some t\<rparr>)"

text \<open>
  \<open>fmt.Sprintf("%q", id)\<close> is \<open>strconv.Quote\<close>: the text between double
  quotes, rune by rune.  A byte below 0x80 is a rune of its own: the double
  quote and the backslash are escaped by a backslash, the control characters
  are written as Go escapes, and every other printable ASCII character is
  kept (\<open>quoteChar\<close>).
\<close>

definition hexdigit :: "nat \<Rightarrow> char" where
  "hexdigit n = (''0123456789abcdef'') ! (n mod 16)"

definition quoteChar :: "char \<Rightarrow> string" where
  "quoteChar c =
     (if c = CHR 0x22 then [CHR 0x5C, CHR 0x22]
      else if c = CHR 0x5C then [CHR 0x5C, CHR 0x5C]
      else if c = CHR 0x07 then [CHR 0x5C, CHR ''a'']
      else if c = CHR 0x08 then [CHR 0x5C, CHR ''b'']
      else if c = CHR 0x0C then [CHR 0x5C, CHR ''f'']
      else if c = CHR 0x0A then [CHR 0x5C, CHR ''n'']
      else if c = CHR 0x0D then [CHR 0x5C, CHR ''r'']
      else if c = CHR 0x09 then [CHR 0x5C, CHR ''t'']
      else if c = CHR 0x0B then [CHR 0x5C, CHR ''v'']
      else if of_char c < (0x20 :: nat) \<or> c = CHR 0x7F
        then [CHR 0x5C, CHR ''x'', hexdigit (of_char c div 16), hexdigit (of_char c)]
      else [c])"

text \<open>
  From 0x80 on the bytes are decoded as UTF-8 (\<open>utf8.DecodeRuneInString\<close>).
  \<open>decodeRune\<close> gives the code point and the width of the encoding at the head
  of the text, and \<open>None\<close> where Go gives \<open>(RuneError, 1)\<close>: a head byte that
  starts no encoding, a second byte outside the range the head byte accepts
  (which excludes the overlong forms, the surrogates and the code points past
  U+10FFFF), a later byte that is no continuation byte, or a text that ends
  too early.
\<close>

definition cont :: "char \<Rightarrow> bool" where
  "cont c = (0x80 \<le> (of_char c :: nat) \<and> (of_char c :: nat) \<le> 0xBF)"

definition between :: "nat \<Rightarrow> char \<Rightarrow> nat \<Rightarrow> bool" where
  "between lo c hi = (lo \<le> of_char c \<and> (of_char c :: nat) \<le> hi)"

definition decodeRune :: "string \<Rightarrow> (nat \<times> nat) option" where
  "decodeRune s =
     (case s of
        [] \<Rightarrow> None
      | b0 # s1 \<Rightarrow>
         (let x0 = (of_char b0 :: nat) in
          if between 0xC2 b0 0xDF then
            (case s1 of
               b1 # s2 \<Rightarrow>
                 if cont b1 then Some (x0 mod 32 * 64 + of_char b1 mod 64, 2) else None
             | [] \<Rightarrow> None)
          else if between 0xE0 b0 0xEF then
            (case s1 of
               b1 # b2 # s3 \<Rightarrow>
                 if between (if x0 = 0xE0 then 0xA0 else 0x80) b1 (if x0 = 0xED then 0x9F else 0xBF)
                    \<and> cont b2
                 then Some (x0 mod 16 * 4096 + of_char b1 mod 64 * 64 + of_char b2 mod 64, 3)
                 else None
             | _ \<Rightarrow> None)
          else if between 0xF0 b0 0xF4 then
            (case s1 of
               b1 # b2 # b3 # s4 \<Rightarrow>
                 if between (if x0 = 0xF0 then 0x90 else 0x80) b1 (if x0 = 0xF4 then 0x8F else 0xBF)
                    \<and> cont b2 \<and> cont b3
                 then Some (x0 mod 8 * 262144 + of_char b1 mod 64 * 4096
                              + of_char b2 mod 64 * 64 + of_char b3 mod 64, 4)
                 else None
             | _ \<Rightarrow> None)
          else None))"

text \<open>
  A byte that starts no rune is written \<open>\xhh\<close>.  A decoded rune is kept, in
  its encoding, when it is printable, and written \<open>\uhhhh\<close> or \<open>\Uhhhhhhhh\<close>
  otherwise.  \<open>isPrint\<close> stands for \<open>strconv.IsPrint\<close> on the code points from
  0x80 on, a table of the Go library.
\<close>

definition hex :: "nat \<Rightarrow> nat \<Rightarrow> string" where
  "hex digits n = map (\<lambda>i. hexdigit (n div 16 ^ i)) (rev [0..<digits])"

definition quoteRune :: "(nat \<Rightarrow> bool) \<Rightarrow> nat \<Rightarrow> string \<Rightarrow> string" where
  "quoteRune isPrint r enc =
     (if isPrint r then enc
      else if r < 0x10000 then [CHR 0x5C, CHR ''u''] @ hex 4 r
      else [CHR 0x5C, CHR ''U''] @ hex 8 r)"

fun quoteRunes :: "(nat \<Rightarrow> bool) \<Rightarrow> string \<Rightarrow> string" where
  "quoteRunes isPrint [] = []"
| "quoteRunes isPrint (c # cs) =
     (if (of_char c :: nat) < 0x80 then quoteChar c @ quoteRunes isPrint cs
      else case decodeRune (c # cs) of
        None \<Rightarrow> [CHR 0x5C, CHR ''x'', hexdigit (of_char c div 16), hexdigit (of_char c)]
                  @ quoteRunes isPrint cs
      | Some (r, w) \<Rightarrow> quoteRune isPrint r (take w (c # cs)) @ quoteRunes isPrint (drop (w - 1) cs))"

definition quote :: "(nat \<Rightarrow> bool) \<Rightarrow> string \<Rightarrow> string" where
  "quote isPrint s = [CHR 0x22] @ quoteRunes isPrint s @ [CHR 0x22]"

text \<open>\<open>fmtT\<close> stands for \<open>time.Time.Format(time.RFC3339Nano)\<close> and
  \<open>parseT\<close> for \<open>time.Parse(time.RFC3339Nano, _)\<close>, both of the Go library.\<close>

definition predicate_String :: "(nat \<Rightarrow> bool) \<Rightarrow> (time \<Rightarrow> string) \<Rightarrow> Predicate \<Rightarrow> string" where
  "predicate_String isPrint fmtT p =
     (case anchor p of
        None \<Rightarrow> quote isPrint (pred_id p) @ ''@[]''
      | Some t \<Rightarrow> quote isPrint (pred_id p) @ ''@['' @ fmtT t @ '']'')"

text \<open>
  \<open>strings.TrimSpace\<close> removes the white space of Unicode at both ends
  (\<open>unicode.IsSpace\<close>).  \<open>spaces\<close> lists the UTF-8 encodings of the white space
  runes: tab to carriage return, the space, U+0085, U+00A0, U+1680, U+2000 to
  U+200A, U+2028, U+2029, U+202F, U+205F and U+3000.  The text is trimmed at
  the left first, then at the right, where the encodings are read backwards.
\<close>

definition spaces :: "string list" where
  "spaces =
     [[CHR 0x09], [CHR 0x0A], [CHR 0x0B], [CHR 0x0C], [CHR 0x0D], [CHR 0x20],
      [CHR 0xC2, CHR 0x85], [CHR 0xC2, CHR 0xA0], [CHR 0xE1, CHR 0x9A, CHR 0x80],
      [CHR 0xE2, CHR 0x80, CHR 0x80], [CHR 0xE2, CHR 0x80, CHR 0x81],
      [CHR 0xE2, CHR 0x80, CHR 0x82], [CHR 0xE2, CHR 0x80, CHR 0x83],
      [CHR 0xE2, CHR 0x80, CHR 0x84], [CHR 0xE2, CHR 0x80, CHR 0x85],
      [CHR 0xE2, CHR 0x80, CHR 0x86], [CHR 0xE2, CHR 0x80, CHR 0x87],
      [CHR 0xE2, CHR 0x80, CHR 0x88], [CHR 0xE2, CHR 0x80, CHR 0x89],
      [CHR 0xE2, CHR 0x80, CHR 0x8A], [CHR 0xE2, CHR 0x80, CHR 0xA8],
      [CHR 0xE2, CHR 0x80, CHR 0xA9], [CHR 0xE2, CHR 0x80, CHR 0xAF],
      [CHR 0xE2, CHR 0x81, CHR 0x9F], [CHR 0xE3, CHR 0x80, CHR 0x80]]"

fun trimPrefixes :: "string list \<Rightarrow> string \<Rightarrow> string" where
  "trimPrefixes seqs [] = []"
| "trimPrefixes seqs (c # cs) =
     (case find (\<lambda>q. q \<noteq> [] \<and> take (length q) (c # cs) = q) seqs of
        None \<Rightarrow> c # cs
      | Some q \<Rightarrow> trimPrefixes seqs (drop (length q - 1) cs))"

definition TrimSpace :: "string \<Rightarrow> string" where
  "TrimSpace s = rev (trimPrefixes (map rev spaces) (rev (trimPrefixes spaces s)))"

text \<open>\<open>strings.Index\<close>: the position of the first occurrence, \<open>None\<close> for -1.\<close>

fun Index :: "string \<Rightarrow> string \<Rightarrow> nat option" where
  "Index [] sub = (if sub = [] then Some 0 else None)"
| "Index (c # s) sub =
     (if take (length sub) (c # s) = sub then Some 0
      else map_option Suc (Index s sub))"

text \<open>The slice expression \<open>s[lo:hi]\<close>, which panics unless \<open>lo \<le> hi \<le> len(s)\<close>.
  Indices are Go ints.\<close>

definition slice :: "string \<Rightarrow> int \<Rightarrow> int \<Rightarrow> error + string" where
  "slice s lo hi =
     (if 0 \<le> lo \<and> lo \<le> hi \<and> hi \<le> int (length s)
      then Inr (take (nat hi - nat lo) (drop (nat lo) s))
      else Inl SliceBoundsOutOfRange)"

definition Parse :: "(string \<Rightarrow> time option) \<Rightarrow> string \<Rightarrow> error + Predicate" where
  "Parse parseT s =
     (let raw = TrimSpace s in
      if raw = [] then Inl (Error ''predicate.Parse: empty string'')
      else if hd raw \<noteq> CHR 0x22 then Inl (Error ''predicate.Parse: no leading quote'')
      else case Index raw [CHR 0x22, CHR ''@'', CHR ''[''] of
        None \<Rightarrow> Inl (Error ''predicate.Parse: no anchor definition'')
      | Some idx \<Rightarrow>
         (case slice raw 1 (int idx) of
            Inl e \<Rightarrow> Inl e
          | Inr i \<Rightarrow>
             (case slice raw (int idx + 3) (int (length raw) - 1) of
                Inl e \<Rightarrow> Inl e
              | Inr ta \<Rightarrow>
                 if ta = [] then Inr \<lparr>pred_id = i, anchor = None\<rparr>
                 else
                   let ta1 = (if hd ta = CHR 0x22 then tl ta else ta) in
                   if ta1 = [] then Inl IndexOutOfRange
                   else
                     let ta2 = (if last ta1 = CHR 0x22 then butlast ta1 else ta1) in
                     (case parseT ta2 of
                        None \<Rightarrow> Inl (Error ''predicate.Parse: time anchor'')
                      | Some pta \<Rightarrow> Inr \<lparr>pred_id = i, anchor = Some pta\<rparr>))))"

text \<open>Modelled from the spec: the triple package is not part of the sources.
  An object is a tagged sum of node, predicate and literal; a triple is the
  product of a subject, a predicate and an object, and \<open>triple.New\<close> builds it
  (it can only refuse nil components, which these types do not have).\<close>

datatype Object = ObjNode node | ObjPredicate Predicate | ObjLiteral literal

definition object_Node :: "Object \<Rightarrow> error + node" where
  "object_Node ob = (case ob of ObjNode n \<Rightarrow> Inr n | _ \<Rightarrow> Inl (Error ''triple.Object.Node''))"

definition object_Predicate :: "Object \<Rightarrow> error + Predicate" where
  "object_Predicate ob =
     (case ob of ObjPredicate p \<Rightarrow> Inr p | _ \<Rightarrow> Inl (Error ''triple.Object.Predicate''))"

definition object_Literal :: "Object \<Rightarrow> error + literal" where
  "object_Literal ob =
     (case ob of ObjLiteral l \<Rightarrow> Inr l | _ \<Rightarrow> Inl (Error ''triple.Object.Literal''))"

datatype Triple = Triple (triple_S: node) (triple_P: Predicate) (triple_O: Object)

definition triple_New :: "node \<Rightarrow> Predicate \<Rightarrow> Object \<Rightarrow> error + Triple" where
  "triple_New s p ob = Inr (Triple s p ob)"

section \<open>Result tables (package table)\<close>

text \<open>The struct \<open>Cell\<close>: a nil pointer field is \<open>None\<close>.\<close>

record Cell =
  cell_S :: string
  cell_N :: "node option"
  cell_P :: "Predicate option"
  cell_L :: "literal option"
  cell_T :: "time option"

definition emptyCell :: Cell where
  "emptyCell = \<lparr>cell_S = [], cell_N = None, cell_P = None, cell_L = None, cell_T = None\<rparr>"

definition cell_String :: "(nat \<Rightarrow> bool) \<Rightarrow> (time \<Rightarrow> string) \<Rightarrow> Cell \<Rightarrow> string" where
  "cell_String isPrint fmtT c =
     (if cell_S c \<noteq> [] then cell_S c
      else case cell_N c of Some n \<Rightarrow> node_String n
      | None \<Rightarrow>
         (case cell_P c of Some p \<Rightarrow> predicate_String isPrint fmtT p
          | None \<Rightarrow>
             (case cell_L c of Some l \<Rightarrow> literal_String l
              | None \<Rightarrow>
                 (case cell_T c of Some t \<Rightarrow> fmtT t
                  | None \<Rightarrow> ''<NULL>''))))"

subsection \<open>The table of one owner\<close>

text \<open>
  The planner builds the table of a clause through one pointer that it shares
  with nobody, from rows whose cells it has just made.  For this use a \<open>Row\<close>
  is the map from binding names to cells, and a table
  \<open>Table {bs []string; mbs map[string]bool; data []Row}\<close> is the value of its
  three fields.  The methods whose effect depends on what is shared between
  tables, and the rows that hold a nil cell, are modelled on a store in the
  next subsection.
\<close>

type_synonym Row = "string \<rightharpoonup> Cell"

record Table =
  bs :: "string list"
  mbs :: "string \<rightharpoonup> bool"
  data :: "Row list"

definition New :: "string list \<Rightarrow> error + Table" where
  "New names =
     (let m = foldl (\<lambda>m b. m(b \<mapsto> True)) Map.empty names in
      if card (dom m) \<noteq> length names then Inl (Error ''table.New'')
      else Inr \<lparr>bs = names, mbs = m, data = []\<rparr>)"

definition AddRow :: "Table \<Rightarrow> Row \<Rightarrow> Table" where
  "AddRow t r = t\<lparr>data := data t @ [r]\<rparr>"

definition NumRows :: "Table \<Rightarrow> int" where
  "NumRows t = int (length (data t))"

text \<open>\<open>Row(i)\<close>: the index expression \<open>t.data[i]\<close> panics when \<open>i\<close> is out of
  range; a nil row is \<open>None\<close>.\<close>

definition Row :: "Table \<Rightarrow> int \<Rightarrow> error + (Row option \<times> bool)" where
  "Row t i =
     (if i \<ge> int (length (data t)) then Inr (None, False)
      else if i < 0 then Inl IndexOutOfRange
      else Inr (Some (data t ! nat i), True))"

definition Rows :: "Table \<Rightarrow> Row list" where
  "Rows t = data t"

text \<open>The mutating methods return the table as the call leaves it, and the
  error if there is one.\<close>

definition DeleteRow :: "Table \<Rightarrow> int \<Rightarrow> Table \<times> error option" where
  "DeleteRow t i =
     (if i < 0 \<or> i \<ge> int (length (data t)) then (t, Some (Error ''table.DeleteRow''))
      else (t\<lparr>data := take (nat i) (data t) @ drop (nat i + 1) (data t)\<rparr>, None))"

definition Truncate :: "Table \<Rightarrow> Table" where
  "Truncate t = t\<lparr>data := []\<rparr>"

subsection \<open>Tables on the store\<close>

text \<open>
  In Go a table is reached through a pointer; its binding list is a slice, a
  view of a backing array that other slices may share; its presence map is a
  reference; and a row maps a name to a pointer to a cell, which may be nil.
  The store holds the backing arrays, the maps and the tables at their
  addresses, and the next free address.
\<close>

type_synonym addr = nat

text \<open>A slice of strings: the address of its backing array, the index of its
  first element there, its length and its capacity.\<close>

record SliceHeader =
  sl_array :: addr
  sl_first :: nat
  sl_len :: nat
  sl_cap :: nat

text \<open>A \<open>Row\<close> as Go has it, \<open>map[string]*Cell\<close>: \<open>None\<close> is a name that is no
  key, \<open>Some None\<close> a key mapped to the nil pointer.\<close>

type_synonym PtrRow = "string \<rightharpoonup> Cell option"

text \<open>The struct \<open>Table\<close> with its fields as Go holds them.  A nil map is
  \<open>None\<close>; the row slice is kept as the list of its elements (no method of the
  package makes two tables share the backing array of their rows), and a row
  as the value of its map (no method of the package writes to a row that a
  table holds).\<close>

record TableObj =
  t_bs :: SliceHeader
  t_mbs :: "addr option"
  t_data :: "PtrRow list"

record store =
  st_arrays :: "addr \<rightharpoonup> string list"
  st_maps :: "addr \<rightharpoonup> (string \<rightharpoonup> bool)"
  st_tables :: "addr \<rightharpoonup> TableObj"
  st_next :: addr

definition emptyStore :: store where
  "emptyStore = \<lparr>st_arrays = Map.empty, st_maps = Map.empty, st_tables = Map.empty, st_next = 0\<rparr>"

definition allocArray :: "store \<Rightarrow> string list \<Rightarrow> store \<times> addr" where
  "allocArray h xs =
     (h\<lparr>st_arrays := (st_arrays h)(st_next h \<mapsto> xs), st_next := st_next h + 1\<rparr>, st_next h)"

definition allocMap :: "store \<Rightarrow> (string \<rightharpoonup> bool) \<Rightarrow> store \<times> addr" where
  "allocMap h m =
     (h\<lparr>st_maps := (st_maps h)(st_next h \<mapsto> m), st_next := st_next h + 1\<rparr>, st_next h)"

definition allocTable :: "store \<Rightarrow> TableObj \<Rightarrow> store \<times> addr" where
  "allocTable h t =
     (h\<lparr>st_tables := (st_tables h)(st_next h \<mapsto> t), st_next := st_next h + 1\<rparr>, st_next h)"

text \<open>The array behind a slice, and the elements of the slice.\<close>

definition arrayOf :: "store \<Rightarrow> SliceHeader \<Rightarrow> string list" where
  "arrayOf h s = (case st_arrays h (sl_array s) of None \<Rightarrow> [] | Some xs \<Rightarrow> xs)"

definition sliceElems :: "store \<Rightarrow> SliceHeader \<Rightarrow> string list" where
  "sliceElems h s = take (sl_len s) (drop (sl_first s) (arrayOf h s))"

text \<open>The slice \<open>[]string{}\<close> and the nil slice: no element and no capacity.\<close>

definition emptySlice :: SliceHeader where
  "emptySlice = \<lparr>sl_array = 0, sl_first = 0, sl_len = 0, sl_cap = 0\<rparr>"

text \<open>
  \<open>make([]string, n, c)\<close> filled with the \<open>n\<close> strings \<open>xs\<close>: a new array of
  \<open>c\<close> strings (at least \<open>n\<close>) and the slice of its first \<open>n\<close>.  The composite
  literal \<open>[]string{...}\<close> is the case \<open>c = n\<close>.
\<close>

definition makeSlice :: "store \<Rightarrow> string list \<Rightarrow> nat \<Rightarrow> store \<times> SliceHeader" where
  "makeSlice h xs c =
     (let c1 = max c (length xs);
          (h1, a) = allocArray h (xs @ replicate (c1 - length xs) [])
      in (h1, \<lparr>sl_array = a, sl_first = 0, sl_len = length xs, sl_cap = c1\<rparr>))"

text \<open>
  \<open>append(s, x)\<close> for one string.  With spare capacity the string is written
  into the backing array, behind the last element of the slice, and the slice
  returned is one longer.  Without it the elements move to a new array;
  \<open>grow\<close> stands for the capacity the run time chooses for it, from the old
  capacity and the length needed (never less than that length).
\<close>

definition appendString ::
  "(nat \<Rightarrow> nat \<Rightarrow> nat) \<Rightarrow> store \<Rightarrow> SliceHeader \<Rightarrow> string \<Rightarrow> store \<times> SliceHeader" where
  "appendString grow h s x =
     (if sl_len s < sl_cap s then
        (h\<lparr>st_arrays := (st_arrays h)(sl_array s \<mapsto> (arrayOf h s)[sl_first s + sl_len s := x])\<rparr>,
         s\<lparr>sl_len := sl_len s + 1\<rparr>)
      else
        makeSlice h (sliceElems h s @ [x]) (grow (sl_cap s) (sl_len s + 1)))"

text \<open>The map of a table; a nil map has no key.\<close>

definition mapOf :: "store \<Rightarrow> TableObj \<Rightarrow> (string \<rightharpoonup> bool)" where
  "mapOf h t =
     (case t_mbs t of
        None \<Rightarrow> Map.empty
      | Some m \<Rightarrow> (case st_maps h m of None \<Rightarrow> Map.empty | Some f \<Rightarrow> f))"

text \<open>
  \<open>New\<close> on the store.  The names are read from the slice of the caller, the
  map is new, and the table keeps the slice it was given: \<open>bs: bs\<close>.  The
  check for repeated names is that of \<open>New\<close> above.
\<close>

definition NewTable :: "store \<Rightarrow> SliceHeader \<Rightarrow> store \<times> (error + addr)" where
  "NewTable h names =
     (case New (sliceElems h names) of
        Inl e \<Rightarrow> (h, Inl e)
      | Inr v \<Rightarrow>
         (let (h1, m) = allocMap h (mbs v);
              (h2, a) = allocTable h1 \<lparr>t_bs = names, t_mbs = Some m, t_data = []\<rparr>
          in (h2, Inr a)))"

text \<open>\<open>Bindings\<close> returns the slice \<open>t.bs\<close>; \<open>BindingNames\<close> are its elements.\<close>

definition Bindings :: "store \<Rightarrow> addr \<Rightarrow> SliceHeader" where
  "Bindings h a = (case st_tables h a of None \<Rightarrow> emptySlice | Some t \<Rightarrow> t_bs t)"

definition BindingNames :: "store \<Rightarrow> addr \<Rightarrow> string list" where
  "BindingNames h a = sliceElems h (Bindings h a)"

definition HasBinding :: "store \<Rightarrow> addr \<Rightarrow> string \<Rightarrow> bool" where
  "HasBinding h a b =
     (case st_tables h a of
        None \<Rightarrow> False
      | Some t \<Rightarrow> (case mapOf h t b of Some v \<Rightarrow> v | None \<Rightarrow> False))"

definition RowsOf :: "store \<Rightarrow> addr \<Rightarrow> PtrRow list" where
  "RowsOf h a = (case st_tables h a of None \<Rightarrow> [] | Some t \<Rightarrow> t_data t)"

text \<open>
  The body of the loop of \<open>AddBindings\<close> for the name \<open>b\<close>: when \<open>b\<close> is no key of
  the map of the table, it becomes one (an assignment that panics on a nil
  map) and is appended to \<open>t.bs\<close>.  The store is returned as the step leaves
  it, with the panic if there is one.
\<close>

definition addBinding ::
  "(nat \<Rightarrow> nat \<Rightarrow> nat) \<Rightarrow> store \<Rightarrow> addr \<Rightarrow> string \<Rightarrow> store \<times> error option" where
  "addBinding grow h a b =
     (case st_tables h a of
        None \<Rightarrow> (h, Some NilDereference)
      | Some t \<Rightarrow>
         if mapOf h t b = None then
           (case t_mbs t of
              None \<Rightarrow> (h, Some NilMapAssignment)
            | Some m \<Rightarrow>
               (let h1 = h\<lparr>st_maps := (st_maps h)(m \<mapsto> (mapOf h t)(b \<mapsto> True))\<rparr>;
                    (h2, s) = appendString grow h1 (t_bs t) b
                in (h2\<lparr>st_tables := (st_tables h2)(a \<mapsto> t\<lparr>t_bs := s\<rparr>)\<rparr>, None)))
         else (h, None))"

text \<open>
  \<open>AddBindings\<close> ranges over the slice of its argument: the length is fixed
  when the loop starts, and the element at each index is read from the backing
  array when its turn comes.
\<close>

fun AddBindings_loop ::
  "(nat \<Rightarrow> nat \<Rightarrow> nat) \<Rightarrow> addr \<Rightarrow> SliceHeader \<Rightarrow> nat list \<Rightarrow> store \<Rightarrow> store \<times> error option" where
  "AddBindings_loop grow a names [] h = (h, None)"
| "AddBindings_loop grow a names (i # is) h =
     (case addBinding grow h a (arrayOf h names ! (sl_first names + i)) of
        (h1, Some e) \<Rightarrow> (h1, Some e)
      | (h1, None) \<Rightarrow> AddBindings_loop grow a names is h1)"

definition AddBindings ::
  "(nat \<Rightarrow> nat \<Rightarrow> nat) \<Rightarrow> store \<Rightarrow> addr \<Rightarrow> SliceHeader \<Rightarrow> store \<times> error option" where
  "AddBindings grow h a names = AddBindings_loop grow a names [0..<sl_len names] h"

text \<open>\<open>strings.Join\<close>.\<close>

fun Join :: "string list \<Rightarrow> string \<Rightarrow> string" where
  "Join [] sep = []"
| "Join [x] sep = x"
| "Join (x # y # xs) sep = x @ sep @ Join (y # xs) sep"

text \<open>\<open>Cell.String\<close> on a pointer: the nil pointer is dereferenced.\<close>

definition cellPtr_String :: "(nat \<Rightarrow> bool) \<Rightarrow> (time \<Rightarrow> string) \<Rightarrow> Cell option \<Rightarrow> error + string" where
  "cellPtr_String isPrint fmtT c =
     (case c of None \<Rightarrow> Inl NilDereference | Some v \<Rightarrow> Inr (cell_String isPrint fmtT v))"

text \<open>\<open>ToTextLine\<close> appends to the buffer \<open>res\<close>; \<open>bytes.Buffer.WriteString\<close>
  never returns an error.  \<open>cnt\<close> is the loop's counter.\<close>

fun ToTextLine_loop ::
  "(nat \<Rightarrow> bool) \<Rightarrow> (time \<Rightarrow> string) \<Rightarrow> PtrRow \<Rightarrow> string \<Rightarrow> int \<Rightarrow> string list \<Rightarrow> string
     \<Rightarrow> error + string" where
  "ToTextLine_loop isPrint fmtT r sep cnt [] res = Inr res"
| "ToTextLine_loop isPrint fmtT r sep cnt (b # rest) res =
     (let cnt1 = cnt - 1 in
      case (case r b of Some c \<Rightarrow> cellPtr_String isPrint fmtT c | None \<Rightarrow> Inr ''<NULL>'') of
        Inl e \<Rightarrow> Inl e
      | Inr v \<Rightarrow>
         (let res1 = res @ v;
              res2 = (if cnt1 > 0 then res1 @ sep else res1)
          in ToTextLine_loop isPrint fmtT r sep cnt1 rest res2))"

definition ToTextLine ::
  "(nat \<Rightarrow> bool) \<Rightarrow> (time \<Rightarrow> string) \<Rightarrow> PtrRow \<Rightarrow> string \<Rightarrow> string list \<Rightarrow> string
     \<Rightarrow> error + string" where
  "ToTextLine isPrint fmtT r res names sep =
     (let cnt = int (length names);
          sep1 = (if sep = [] then [CHR 0x09] else sep)
      in ToTextLine_loop isPrint fmtT r sep1 cnt names res)"

fun ToText_loop ::
  "(nat \<Rightarrow> bool) \<Rightarrow> (time \<Rightarrow> string) \<Rightarrow> string list \<Rightarrow> string \<Rightarrow> PtrRow list \<Rightarrow> string
     \<Rightarrow> error + string" where
  "ToText_loop isPrint fmtT names sep [] res = Inr res"
| "ToText_loop isPrint fmtT names sep (r # rs) res =
     (case ToTextLine isPrint fmtT r [] names sep of
        Inl e \<Rightarrow> Inl e
      | Inr row \<Rightarrow> ToText_loop isPrint fmtT names sep rs (res @ row @ [CHR 0x0A]))"

definition ToText ::
  "(nat \<Rightarrow> bool) \<Rightarrow> (time \<Rightarrow> string) \<Rightarrow> store \<Rightarrow> addr \<Rightarrow> string \<Rightarrow> error + string" where
  "ToText isPrint fmtT h a sep =
     (case st_tables h a of
        None \<Rightarrow> Inl NilDereference
      | Some t \<Rightarrow>
         ToText_loop isPrint fmtT (sliceElems h (t_bs t)) sep (t_data t)
           (Join (sliceElems h (t_bs t)) sep @ [CHR 0x0A]))"

definition equalBindings :: "(string \<rightharpoonup> bool) \<Rightarrow> (string \<rightharpoonup> bool) \<Rightarrow> bool" where
  "equalBindings b1 b2 =
     (if card (dom b1) \<noteq> card (dom b2) then False
      else (\<forall>k \<in> dom b1. b2 k \<noteq> None))"

text \<open>
  \<open>AppendTable\<close>: a table without bindings takes over the slice and the map
  of \<open>t2\<close>, the slice header and the reference, not copies.
\<close>

definition AppendTable :: "store \<Rightarrow> addr \<Rightarrow> addr \<Rightarrow> store \<times> error option" where
  "AppendTable h a a2 =
     (case (st_tables h a, st_tables h a2) of
        (Some t, Some t2) \<Rightarrow>
          if sl_len (t_bs t) > 0 \<and> \<not> equalBindings (mapOf h t) (mapOf h t2)
          then (h, Some (Error ''table.AppendTable''))
          else
            (let t1 = (if sl_len (t_bs t) = 0 then t\<lparr>t_bs := t_bs t2, t_mbs := t_mbs t2\<rparr> else t)
             in (h\<lparr>st_tables := (st_tables h)(a \<mapsto> t1\<lparr>t_data := t_data t1 @ t_data t2\<rparr>)\<rparr>, None))
      | _ \<Rightarrow> (h, Some NilDereference))"

text \<open>\<open>disjointBinding\<close> counts, for every key of either map, in how many of
  the two maps it is a key (\<open>keyCount\<close> is the map \<open>m\<close> at a key), and looks
  for a count other than one.\<close>

definition keyCount :: "(string \<rightharpoonup> bool) \<Rightarrow> (string \<rightharpoonup> bool) \<Rightarrow> string \<Rightarrow> int" where
  "keyCount b1 b2 k = (if k \<in> dom b1 then 1 else 0) + (if k \<in> dom b2 then 1 else 0)"

definition disjointBinding :: "(string \<rightharpoonup> bool) \<Rightarrow> (string \<rightharpoonup> bool) \<Rightarrow> bool" where
  "disjointBinding b1 b2 = (\<forall>k \<in> dom b1 \<union> dom b2. keyCount b1 b2 k = 1)"

definition MergeRows :: "PtrRow list \<Rightarrow> PtrRow" where
  "MergeRows ms = foldl (\<lambda>res om. res ++ om) Map.empty ms"

text \<open>\<open>setKeys b m\<close> is the loop \<open>for k := range b { m[k] = true }\<close>.\<close>

definition setKeys :: "(string \<rightharpoonup> bool) \<Rightarrow> (string \<rightharpoonup> bool) \<Rightarrow> (string \<rightharpoonup> bool)" where
  "setKeys b m = (\<lambda>k. if k \<in> dom b then Some True else m k)"

text \<open>
  \<open>DotProduct\<close> rebuilds \<open>t.bs\<close> by ranging over the new map, and Go leaves the
  order of that iteration open: \<open>ks\<close> is the order in which the run time
  yields the keys, an enumeration of the keys of the new map without
  repetition (\<open>keyOrder\<close>).
\<close>

definition keyOrder :: "string list \<Rightarrow> (string \<rightharpoonup> bool) \<Rightarrow> bool" where
  "keyOrder ks m = (distinct ks \<and> set ks = dom m)"

definition addRowTo :: "store \<Rightarrow> addr \<Rightarrow> PtrRow \<Rightarrow> store" where
  "addRowTo h a r =
     (case st_tables h a of
        None \<Rightarrow> h
      | Some t \<Rightarrow> h\<lparr>st_tables := (st_tables h)(a \<mapsto> t\<lparr>t_data := t_data t @ [r]\<rparr>)\<rparr>)"

text \<open>
  \<open>DotProduct\<close>.  The receiver \<open>t\<close> is the table at \<open>a\<close> and the argument \<open>t2\<close>
  the table at \<open>a2\<close>, which may be the same table.  The rows of the receiver
  are saved in \<open>td\<close> and \<open>t.data\<close> is emptied; then, for each row \<open>r1\<close> of \<open>td\<close>,
  the inner loop ranges over \<open>t2.data\<close> as the store holds it when that loop
  starts.
\<close>

definition DotProduct ::
  "(nat \<Rightarrow> nat \<Rightarrow> nat) \<Rightarrow> string list \<Rightarrow> store \<Rightarrow> addr \<Rightarrow> addr \<Rightarrow> store \<times> error option" where
  "DotProduct grow ks h a a2 =
     (case (st_tables h a, st_tables h a2) of
        (Some t, Some t2) \<Rightarrow>
          if \<not> disjointBinding (mapOf h t) (mapOf h t2)
          then (h, Some (Error ''table.DotProduct''))
          else
            (let m = setKeys (mapOf h t2) (setKeys (mapOf h t) Map.empty);
                 (h1, mr) = allocMap h m;
                 (h2, s) = foldl (\<lambda>(h, s) k. appendString grow h s k) (h1, emptySlice) ks;
                 td = t_data t;
                 h3 = h2\<lparr>st_tables := (st_tables h2)(a \<mapsto> \<lparr>t_bs = s, t_mbs = Some mr, t_data = []\<rparr>)\<rparr>;
                 h4 = foldl (\<lambda>h r1. foldl (\<lambda>h r2. addRowTo h a (MergeRows [r1, r2])) h (RowsOf h a2))
                        h3 td
             in (h4, None))
      | _ \<Rightarrow> (h, Some NilDereference))"

section \<open>The planner (package planner)\<close>

text \<open>Modelled from the spec: the storage package is not part of the sources.
  \<open>LookupOptions\<close> is \<open>{MaxElements, LowerAnchor, UpperAnchor}\<close>, the anchors
  being optional; the zero value \<open>&storage.LookupOptions{}\<close> has no anchor.\<close>

record LookupOptions =
  MaxElements :: int
  LowerAnchor :: "time option"
  UpperAnchor :: "time option"

definition zeroLookupOptions :: LookupOptions where
  "zeroLookupOptions = \<lparr>MaxElements = 0, LowerAnchor = None, UpperAnchor = None\<rparr>"

text \<open>Modelled from the spec: the storage package is not part of the sources.
  A graph is the interface the planner consumes; a channel of results is the
  list of the elements it yields.\<close>

record Graph =
  Exist :: "Triple \<Rightarrow> error + bool"
  Objects :: "node \<Rightarrow> Predicate \<Rightarrow> LookupOptions \<Rightarrow> error + Object list"
  PredicatesForSubjectAndObject :: "node \<Rightarrow> Object \<Rightarrow> LookupOptions \<Rightarrow> error + Predicate list"
  Subjects :: "Predicate \<Rightarrow> Object \<Rightarrow> LookupOptions \<Rightarrow> error + node list"
  TriplesForSubject :: "node \<Rightarrow> LookupOptions \<Rightarrow> error + Triple list"
  TriplesForPredicate :: "Predicate \<Rightarrow> LookupOptions \<Rightarrow> error + Triple list"
  TriplesForObject :: "Object \<Rightarrow> LookupOptions \<Rightarrow> error + Triple list"
  Triples :: "error + Triple list"

text \<open>The struct \<open>semantic.GraphClause\<close>, with the fields the planner reads
  (their names and types are those of the planner's uses and of the semantic
  tests).  The pointers \<open>S\<close>, \<open>P\<close> and \<open>O\<close> are \<open>clS\<close>, \<open>clP\<close> and \<open>clO\<close>.\<close>

record GraphClause =
  clS :: "node option"
  SBinding :: string
  SAlias :: string
  STypeAlias :: string
  SIDAlias :: string
  clP :: "Predicate option"
  PID :: string
  PBinding :: string
  PAlias :: string
  PIDAlias :: string
  PAnchorBinding :: string
  PAnchorAlias :: string
  PLowerBound :: "time option"
  PUpperBound :: "time option"
  PLowerBoundAlias :: string
  PUpperBoundAlias :: string
  PTemporal :: bool
  clO :: "Object option"
  OID :: string
  OBinding :: string
  OAlias :: string
  OTypeAlias :: string
  OIDAlias :: string
  OAnchorBinding :: string
  OAnchorAlias :: string
  OLowerBound :: "time option"
  OUpperBound :: "time option"
  OTemporal :: bool

definition emptyClause :: GraphClause where
  "emptyClause =
     \<lparr>clS = None, SBinding = [], SAlias = [], STypeAlias = [], SIDAlias = [],
      clP = None, PID = [], PBinding = [], PAlias = [], PIDAlias = [],
      PAnchorBinding = [], PAnchorAlias = [], PLowerBound = None, PUpperBound = None,
      PLowerBoundAlias = [], PUpperBoundAlias = [], PTemporal = False,
      clO = None, OID = [], OBinding = [], OAlias = [], OTypeAlias = [], OIDAlias = [],
      OAnchorBinding = [], OAnchorAlias = [], OLowerBound = None, OUpperBound = None,
      OTemporal = False\<rparr>"

text \<open>
  \<open>updateTimeBounds\<close> receives a pointer and assigns through it, and it
  returns the pointer \<open>nlo\<close> to a new struct.  The model returns both: the
  caller's struct as the call leaves it, then the struct returned.
\<close>

definition updateTimeBounds :: "LookupOptions \<Rightarrow> GraphClause \<Rightarrow> LookupOptions \<times> LookupOptions" where
  "updateTimeBounds lo cls =
     (let nlo = zeroLookupOptions;
          lo1 = (case PLowerBound cls of
                   None \<Rightarrow> lo
                 | Some b \<Rightarrow>
                     if (case LowerAnchor lo of None \<Rightarrow> True | Some a \<Rightarrow> After b a)
                     then lo\<lparr>LowerAnchor := Some b\<rparr> else lo);
          lo2 = (case PUpperBound cls of
                   None \<Rightarrow> lo1
                 | Some b \<Rightarrow>
                     if (case UpperAnchor lo1 of None \<Rightarrow> True | Some a \<Rightarrow> Before b a)
                     then lo1\<lparr>UpperAnchor := Some b\<rparr> else lo1)
      in (lo2, nlo))"

text \<open>
  One bound alias of \<open>updateTimeBoundsForRow\<close>.  \<open>v, ok := r[alias]\<close> gives
  the nil cell when the alias is no key of the row, and then \<open>v.T\<close>
  dereferences nil.  \<open>cur\<close> is the anchor \<open>lo\<close> holds; the result is the
  new value of that anchor.
\<close>

definition rowAnchor :: "Row \<Rightarrow> string \<Rightarrow> time option \<Rightarrow> error + time option" where
  "rowAnchor r alias cur =
     (case r alias of
        None \<Rightarrow> Inl NilDereference
      | Some v \<Rightarrow>
         (case cell_T v of
            None \<Rightarrow> Inl (Error ''planner.updateTimeBoundsForRow'')
          | Some vt \<Rightarrow>
             if (case cur of None \<Rightarrow> True | Some a \<Rightarrow> After vt a)
             then Inr (Some vt) else Inr cur))"

text \<open>The first component is the caller's struct as the call leaves it, the
  second what the call returns.\<close>

definition updateTimeBoundsForRow ::
  "LookupOptions \<Rightarrow> GraphClause \<Rightarrow> Row \<Rightarrow> LookupOptions \<times> (error + LookupOptions)" where
  "updateTimeBoundsForRow lo cls r =
     (let (caller, lo1) = updateTimeBounds lo cls in
      (caller,
       case (if PLowerBoundAlias cls \<noteq> []
             then map_sum id (\<lambda>a. lo1\<lparr>LowerAnchor := a\<rparr>)
                    (rowAnchor r (PLowerBoundAlias cls) (LowerAnchor lo1))
             else Inr lo1) of
         Inl e \<Rightarrow> Inl e
       | Inr lo2 \<Rightarrow>
          (case (if PUpperBoundAlias cls \<noteq> []
                 then map_sum id (\<lambda>a. lo2\<lparr>UpperAnchor := a\<rparr>)
                        (rowAnchor r (PUpperBoundAlias cls) (UpperAnchor lo2))
                 else Inr lo2) of
             Inl e \<Rightarrow> Inl e
           | Inr lo3 \<Rightarrow> Inr (snd (updateTimeBounds lo3 cls)))))"

subsection \<open>From a triple to a row\<close>

definition objectToCell :: "Object \<Rightarrow> error + Cell" where
  "objectToCell ob =
     (case object_Node ob of
        Inr n \<Rightarrow> Inr (emptyCell\<lparr>cell_N := Some n\<rparr>)
      | Inl _ \<Rightarrow>
         (case object_Predicate ob of
            Inr p \<Rightarrow> Inr (emptyCell\<lparr>cell_P := Some p\<rparr>)
          | Inl _ \<Rightarrow>
             (case object_Literal ob of
                Inr l \<Rightarrow> Inr (emptyCell\<lparr>cell_L := Some l\<rparr>)
              | Inl _ \<Rightarrow> Inl (Error ''planner.objectToCell''))))"

text \<open>
  \<open>tripleToRow\<close> is a sequence of guarded blocks, each of which may return.
  Its state is the row \<open>r\<close> and the map \<open>bnd\<close> of the closure
  \<open>validBinding\<close>; a block either passes the state on (\<open>Next\<close>) or returns
  (\<open>Return\<close>): \<open>Inl e\<close> is \<open>(nil, e)\<close>, \<open>Inr None\<close> is \<open>(nil, nil)\<close> and
  \<open>Inr (Some r)\<close> is \<open>(r, nil)\<close>.
\<close>

type_synonym tr_state = "Row \<times> (string \<rightharpoonup> Cell)"

datatype flow = Next tr_state | Return "error + Row option"

definition validBinding :: "(string \<rightharpoonup> Cell) \<Rightarrow> string \<Rightarrow> Cell \<Rightarrow> (string \<rightharpoonup> Cell) \<times> bool" where
  "validBinding bnd k v =
     (bnd(k \<mapsto> v), (case bnd k of None \<Rightarrow> True | Some c \<Rightarrow> c = v))"

text \<open>\<open>r[k] = c; if !validBinding(k, c) { return nil, nil }\<close>\<close>

definition bindCell :: "string \<Rightarrow> Cell \<Rightarrow> tr_state \<Rightarrow> flow" where
  "bindCell k c st =
     (case st of (r, bnd) \<Rightarrow>
        (case validBinding bnd k c of (bnd1, ok) \<Rightarrow>
           if \<not> ok then Return (Inr None) else Next (r(k \<mapsto> c), bnd1)))"

definition thenDo :: "flow \<Rightarrow> (tr_state \<Rightarrow> flow) \<Rightarrow> flow" where
  "thenDo f g = (case f of Next st \<Rightarrow> g st | Return x \<Rightarrow> Return x)"

definition blockSBinding :: "GraphClause \<Rightarrow> node \<Rightarrow> tr_state \<Rightarrow> flow" where
  "blockSBinding cls s st =
     (if SBinding cls \<noteq> [] then bindCell (SBinding cls) (emptyCell\<lparr>cell_N := Some s\<rparr>) st
      else Next st)"

definition blockSAlias :: "GraphClause \<Rightarrow> node \<Rightarrow> tr_state \<Rightarrow> flow" where
  "blockSAlias cls s st =
     (if SAlias cls \<noteq> [] then bindCell (SAlias cls) (emptyCell\<lparr>cell_N := Some s\<rparr>) st
      else Next st)"

definition blockSTypeAlias :: "GraphClause \<Rightarrow> node \<Rightarrow> tr_state \<Rightarrow> flow" where
  "blockSTypeAlias cls s st =
     (if STypeAlias cls \<noteq> []
      then bindCell (STypeAlias cls) (emptyCell\<lparr>cell_S := node_Type s\<rparr>) st
      else Next st)"

definition blockSIDAlias :: "GraphClause \<Rightarrow> node \<Rightarrow> tr_state \<Rightarrow> flow" where
  "blockSIDAlias cls s st =
     (if SIDAlias cls \<noteq> []
      then bindCell (SIDAlias cls) (emptyCell\<lparr>cell_S := node_ID s\<rparr>) st
      else Next st)"

definition blockPBinding :: "GraphClause \<Rightarrow> Predicate \<Rightarrow> tr_state \<Rightarrow> flow" where
  "blockPBinding cls p st =
     (if PBinding cls \<noteq> [] then bindCell (PBinding cls) (emptyCell\<lparr>cell_P := Some p\<rparr>) st
      else Next st)"

definition blockPAlias :: "GraphClause \<Rightarrow> Predicate \<Rightarrow> tr_state \<Rightarrow> flow" where
  "blockPAlias cls p st =
     (if PAlias cls \<noteq> [] then bindCell (PAlias cls) (emptyCell\<lparr>cell_P := Some p\<rparr>) st
      else Next st)"

definition blockPIDAlias :: "GraphClause \<Rightarrow> Predicate \<Rightarrow> tr_state \<Rightarrow> flow" where
  "blockPIDAlias cls p st =
     (if PIDAlias cls \<noteq> []
      then bindCell (PIDAlias cls) (emptyCell\<lparr>cell_S := predicate_ID p\<rparr>) st
      else Next st)"

text \<open>The two anchor blocks of the predicate differ in the field they read.\<close>

definition anchorBlock :: "string \<Rightarrow> Predicate \<Rightarrow> tr_state \<Rightarrow> flow" where
  "anchorBlock k p st =
     (if k \<noteq> [] then
        (if predicate_Type p \<noteq> Temporal
         then Return (Inl (Error ''planner.tripleToRow: non temporal predicate''))
         else case TimeAnchor p of
           Inl e \<Rightarrow> Return (Inl (Error ''planner.tripleToRow: time anchor''))
         | Inr t \<Rightarrow> bindCell k (emptyCell\<lparr>cell_T := Some t\<rparr>) st)
      else Next st)"

definition blockPAnchorBinding :: "GraphClause \<Rightarrow> Predicate \<Rightarrow> tr_state \<Rightarrow> flow" where
  "blockPAnchorBinding cls p st = anchorBlock (PAnchorBinding cls) p st"

definition blockPAnchorAlias :: "GraphClause \<Rightarrow> Predicate \<Rightarrow> tr_state \<Rightarrow> flow" where
  "blockPAnchorAlias cls p st = anchorBlock (PAnchorAlias cls) p st"

definition blockOBinding :: "GraphClause \<Rightarrow> Object \<Rightarrow> tr_state \<Rightarrow> flow" where
  "blockOBinding cls ob st =
     (if OBinding cls \<noteq> [] then
        (case objectToCell ob of
           Inl e \<Rightarrow> Return (Inl e)
         | Inr c \<Rightarrow> bindCell (OBinding cls) c st)
      else Next st)"

definition blockOAlias :: "GraphClause \<Rightarrow> Object \<Rightarrow> tr_state \<Rightarrow> flow" where
  "blockOAlias cls ob st =
     (if OAlias cls \<noteq> [] then
        (case objectToCell ob of
           Inl e \<Rightarrow> Return (Inl e)
         | Inr c \<Rightarrow> bindCell (OAlias cls) c st)
      else Next st)"

definition blockOTypeAlias :: "GraphClause \<Rightarrow> Object \<Rightarrow> tr_state \<Rightarrow> flow" where
  "blockOTypeAlias cls ob st =
     (if OTypeAlias cls \<noteq> [] then
        (case object_Node ob of
           Inl e \<Rightarrow> Return (Inl e)
         | Inr n \<Rightarrow> bindCell (OTypeAlias cls) (emptyCell\<lparr>cell_S := node_Type n\<rparr>) st)
      else Next st)"

text \<open>For a node object the block stores the cell and does not call
  \<open>validBinding\<close>; for a predicate object it does.\<close>

definition blockOIDAlias :: "GraphClause \<Rightarrow> Object \<Rightarrow> tr_state \<Rightarrow> flow" where
  "blockOIDAlias cls ob st =
     (if OIDAlias cls \<noteq> [] then
        (case object_Node ob of
           Inr n \<Rightarrow>
             (case st of (r, bnd) \<Rightarrow>
                Next (r(OIDAlias cls \<mapsto> emptyCell\<lparr>cell_S := node_ID n\<rparr>), bnd))
         | Inl _ \<Rightarrow>
             (case object_Predicate ob of
                Inl e \<Rightarrow> Return (Inl e)
              | Inr p \<Rightarrow> bindCell (OIDAlias cls) (emptyCell\<lparr>cell_S := predicate_ID p\<rparr>) st))
      else Next st)"

definition objAnchorBlock :: "string \<Rightarrow> Object \<Rightarrow> tr_state \<Rightarrow> flow" where
  "objAnchorBlock k ob st =
     (if k \<noteq> [] then
        (case object_Predicate ob of
           Inl e \<Rightarrow> Return (Inl e)
         | Inr p \<Rightarrow>
            (case TimeAnchor p of
               Inl e \<Rightarrow> Return (Inl e)
             | Inr ts \<Rightarrow> bindCell k (emptyCell\<lparr>cell_T := Some ts\<rparr>) st))
      else Next st)"

definition blockOAnchorBinding :: "GraphClause \<Rightarrow> Object \<Rightarrow> tr_state \<Rightarrow> flow" where
  "blockOAnchorBinding cls ob st = objAnchorBlock (OAnchorBinding cls) ob st"

definition blockOAnchorAlias :: "GraphClause \<Rightarrow> Object \<Rightarrow> tr_state \<Rightarrow> flow" where
  "blockOAnchorAlias cls ob st = objAnchorBlock (OAnchorAlias cls) ob st"

definition subjectBlocks :: "GraphClause \<Rightarrow> node \<Rightarrow> (tr_state \<Rightarrow> flow) list" where
  "subjectBlocks cls s =
     [blockSBinding cls s, blockSAlias cls s, blockSTypeAlias cls s, blockSIDAlias cls s]"

definition predicateBlocks :: "GraphClause \<Rightarrow> Predicate \<Rightarrow> (tr_state \<Rightarrow> flow) list" where
  "predicateBlocks cls p =
     [blockPBinding cls p, blockPAlias cls p, blockPIDAlias cls p,
      blockPAnchorBinding cls p, blockPAnchorAlias cls p]"

definition objectBlocks :: "GraphClause \<Rightarrow> Object \<Rightarrow> (tr_state \<Rightarrow> flow) list" where
  "objectBlocks cls ob =
     [blockOBinding cls ob, blockOAlias cls ob, blockOTypeAlias cls ob,
      blockOIDAlias cls ob, blockOAnchorBinding cls ob, blockOAnchorAlias cls ob]"

definition finish :: "flow \<Rightarrow> error + Row option" where
  "finish f = (case f of Next (r, bnd) \<Rightarrow> Inr (Some r) | Return x \<Rightarrow> x)"

definition tripleToRow :: "Triple \<Rightarrow> GraphClause \<Rightarrow> error + Row option" where
  "tripleToRow t cls =
     finish (foldl thenDo (Next (Map.empty, Map.empty))
       (subjectBlocks cls (triple_S t) @ predicateBlocks cls (triple_P t)
          @ objectBlocks cls (triple_O t)))"

subsection \<open>Adding triples to the table\<close>

text \<open>The filter of \<open>addTriples\<close> on a predicate with a required id and time
  window: \<open>Inr False\<close> is \<open>continue\<close>.\<close>

definition passes ::
  "string \<Rightarrow> bool \<Rightarrow> time option \<Rightarrow> time option \<Rightarrow> Predicate \<Rightarrow> error + bool" where
  "passes wantID temporal lower upper p =
     (if predicate_ID p \<noteq> wantID then Inr False
      else if temporal \<and> predicate_Type p = Temporal then
        (case TimeAnchor p of
           Inl e \<Rightarrow> Inl (Error ''planner.addTriples: time anchor'')
         | Inr ta \<Rightarrow>
            if (case lower of None \<Rightarrow> False | Some b \<Rightarrow> After b ta) then Inr False
            else if (case upper of None \<Rightarrow> False | Some b \<Rightarrow> Before b ta) then Inr False
            else Inr True)
      else Inr True)"

definition passesP :: "GraphClause \<Rightarrow> Triple \<Rightarrow> error + bool" where
  "passesP cls t =
     (if PID cls \<noteq> []
      then passes (PID cls) (PTemporal cls) (PLowerBound cls) (PUpperBound cls) (triple_P t)
      else Inr True)"

definition passesO :: "GraphClause \<Rightarrow> Triple \<Rightarrow> error + bool" where
  "passesO cls t =
     (if OID cls \<noteq> [] then
        (case object_Predicate (triple_O t) of
           Inl _ \<Rightarrow> Inr True
         | Inr p \<Rightarrow> passes (OID cls) (OTemporal cls) (OLowerBound cls) (OUpperBound cls) p)
      else Inr True)"

text \<open>\<open>addTriples\<close> drains the channel \<open>ts\<close>; the table is returned as the
  call leaves it, with the error if there is one.\<close>

fun addTriples :: "Triple list \<Rightarrow> GraphClause \<Rightarrow> Table \<Rightarrow> Table \<times> error option" where
  "addTriples [] cls tbl = (tbl, None)"
| "addTriples (t # ts) cls tbl =
     (case tripleToRow t cls of
        Inl e \<Rightarrow> (tbl, Some e)
      | Inr r \<Rightarrow>
         (case passesP cls t of
            Inl e \<Rightarrow> (tbl, Some e)
          | Inr False \<Rightarrow> addTriples ts cls tbl
          | Inr True \<Rightarrow>
             (case passesO cls t of
                Inl e \<Rightarrow> (tbl, Some e)
              | Inr False \<Rightarrow> addTriples ts cls tbl
              | Inr True \<Rightarrow>
                 (case r of
                    Some row \<Rightarrow> addTriples ts cls (AddRow tbl row)
                  | None \<Rightarrow> addTriples ts cls tbl))))"

subsection \<open>The dispatch\<close>

text \<open>\<open>for _, g := range gs { ... }\<close> with a body that may return an error.\<close>

fun forGraphs :: "(Graph \<Rightarrow> Table \<Rightarrow> error + Table) \<Rightarrow> Graph list \<Rightarrow> Table \<Rightarrow> error + Table" where
  "forGraphs body [] tbl = Inr tbl"
| "forGraphs body (g # gs) tbl =
     (case body g tbl of Inl e \<Rightarrow> Inl e | Inr tbl1 \<Rightarrow> forGraphs body gs tbl1)"

text \<open>The loop that builds one triple for each element read from a channel.\<close>

fun newTriples :: "('a \<Rightarrow> error + Triple) \<Rightarrow> 'a list \<Rightarrow> error + Triple list" where
  "newTriples mk [] = Inr []"
| "newTriples mk (x # xs) =
     (case mk x of
        Inl e \<Rightarrow> Inl e
      | Inr t \<Rightarrow> (case newTriples mk xs of Inl e \<Rightarrow> Inl e | Inr ts \<Rightarrow> Inr (t # ts)))"

definition addAll :: "error + Triple list \<Rightarrow> GraphClause \<Rightarrow> Table \<Rightarrow> error + Table" where
  "addAll ets cls tbl =
     (case ets of
        Inl e \<Rightarrow> Inl e
      | Inr ts \<Rightarrow> (case addTriples ts cls tbl of (tbl1, Some e) \<Rightarrow> Inl e | (tbl1, None) \<Rightarrow> Inr tbl1))"

definition elements :: "error + 'a list \<Rightarrow> ('a \<Rightarrow> error + Triple) \<Rightarrow> error + Triple list" where
  "elements exs mk = (case exs of Inl e \<Rightarrow> Inl e | Inr xs \<Rightarrow> newTriples mk xs)"

text \<open>
  \<open>simpleFetch\<close>.  \<open>bindingsOf\<close> stands for the method \<open>GraphClause.Bindings\<close>,
  which is not part of the sources.  The first component of the result is the
  caller's \<open>LookupOptions\<close> as the call leaves them; \<open>lo1\<close> is what the local
  variable \<open>lo\<close> holds after \<open>lo = updateTimeBounds(lo, cls)\<close>, the options
  passed to the storage.
\<close>

definition simpleFetch ::
  "(GraphClause \<Rightarrow> string list) \<Rightarrow> Graph list \<Rightarrow> GraphClause \<Rightarrow> LookupOptions
     \<Rightarrow> LookupOptions \<times> (error + Table)" where
  "simpleFetch bindingsOf gs cls lo =
     (let (caller, lo1) = updateTimeBounds lo cls in
      (caller,
       case New (bindingsOf cls) of
         Inl e \<Rightarrow> Inl e
       | Inr tbl \<Rightarrow>
          (case (clS cls, clP cls, clO cls) of
             (Some s, Some p, Some ob) \<Rightarrow>
               (case triple_New s p ob of
                  Inl e \<Rightarrow> Inl e
                | Inr t \<Rightarrow>
                   forGraphs (\<lambda>g tbl.
                     case Exist g t of
                       Inl e \<Rightarrow> Inl e
                     | Inr b \<Rightarrow> if b then addAll (Inr [t]) cls tbl else Inr tbl) gs tbl)
           | (Some s, Some p, None) \<Rightarrow>
               forGraphs (\<lambda>g tbl.
                 addAll (elements (Objects g s p lo1) (\<lambda>ob. triple_New s p ob)) cls tbl) gs tbl
           | (Some s, None, Some ob) \<Rightarrow>
               forGraphs (\<lambda>g tbl.
                 addAll (elements (PredicatesForSubjectAndObject g s ob lo1)
                           (\<lambda>p. triple_New s p ob)) cls tbl) gs tbl
           | (None, Some p, Some ob) \<Rightarrow>
               forGraphs (\<lambda>g tbl.
                 addAll (elements (Subjects g p ob lo1) (\<lambda>s. triple_New s p ob)) cls tbl) gs tbl
           | (Some s, None, None) \<Rightarrow>
               forGraphs (\<lambda>g tbl. addAll (TriplesForSubject g s lo1) cls tbl) gs tbl
           | (None, Some p, None) \<Rightarrow>
               forGraphs (\<lambda>g tbl. addAll (TriplesForPredicate g p lo1) cls tbl) gs tbl
           | (None, None, Some ob) \<Rightarrow>
               forGraphs (\<lambda>g tbl. addAll (TriplesForObject g ob lo1) cls tbl) gs tbl
           | (None, None, None) \<Rightarrow>
               forGraphs (\<lambda>g tbl. addAll (Triples g) cls tbl) gs tbl)))"

section \<open>Notions used by the properties, and the inputs of the worked examples\<close>

text \<open>A cell that holds a string only.\<close>

definition strCell :: "string \<Rightarrow> Cell" where
  "strCell s = emptyCell\<lparr>cell_S := s\<rparr>"

text \<open>A table in the style of the package's tests.\<close>

definition fooTable :: Table where
  "fooTable =
     \<lparr>bs = [''?foo''], mbs = [''?foo'' \<mapsto> True],
      data = [[''?foo'' \<mapsto> strCell ''f0''], [''?foo'' \<mapsto> strCell ''f1'']]\<rparr>"

text \<open>Modelled from the spec: the storage package is not part of the sources.
  The reference graph over a list of triples.  It applies the time window of
  the lookup options to the temporal predicates (an immutable predicate always
  passes) and the element cap when there is one.\<close>

definition inWindow :: "LookupOptions \<Rightarrow> Predicate \<Rightarrow> bool" where
  "inWindow lo p =
     (case anchor p of
        None \<Rightarrow> True
      | Some a \<Rightarrow>
          (case LowerAnchor lo of None \<Rightarrow> True | Some l \<Rightarrow> \<not> After l a) \<and>
          (case UpperAnchor lo of None \<Rightarrow> True | Some u \<Rightarrow> \<not> Before u a))"

definition capped :: "LookupOptions \<Rightarrow> 'a list \<Rightarrow> 'a list" where
  "capped lo xs = (if MaxElements lo > 0 then take (nat (MaxElements lo)) xs else xs)"

definition lookup :: "LookupOptions \<Rightarrow> (Triple \<Rightarrow> bool) \<Rightarrow> Triple list \<Rightarrow> Triple list" where
  "lookup lo want ts = capped lo (filter (\<lambda>t. want t \<and> inWindow lo (triple_P t)) ts)"

definition memoryGraph :: "Triple list \<Rightarrow> Graph" where
  "memoryGraph ts =
     \<lparr>Exist = (\<lambda>t. Inr (t \<in> set ts)),
      Objects = (\<lambda>s p lo. Inr (map triple_O (lookup lo (\<lambda>t. triple_S t = s \<and> triple_P t = p) ts))),
      PredicatesForSubjectAndObject =
        (\<lambda>s ob lo. Inr (map triple_P (lookup lo (\<lambda>t. triple_S t = s \<and> triple_O t = ob) ts))),
      Subjects = (\<lambda>p ob lo. Inr (map triple_S (lookup lo (\<lambda>t. triple_P t = p \<and> triple_O t = ob) ts))),
      TriplesForSubject = (\<lambda>s lo. Inr (lookup lo (\<lambda>t. triple_S t = s) ts)),
      TriplesForPredicate = (\<lambda>p lo. Inr (lookup lo (\<lambda>t. triple_P t = p) ts)),
      TriplesForObject = (\<lambda>ob lo. Inr (lookup lo (\<lambda>t. triple_O t = ob) ts)),
      Triples = Inr ts\<rparr>"

text \<open>A stand-in for \<open>GraphClause.Bindings\<close> in the worked examples: the
  names the clause binds, in the order of its fields.\<close>

definition clauseNames :: "GraphClause \<Rightarrow> string list" where
  "clauseNames cls =
     filter (\<lambda>b. b \<noteq> [])
       [SBinding cls, SAlias cls, STypeAlias cls, SIDAlias cls,
        PBinding cls, PAlias cls, PIDAlias cls, PAnchorBinding cls, PAnchorAlias cls,
        OBinding cls, OAlias cls, OTypeAlias cls, OIDAlias cls,
        OAnchorBinding cls, OAnchorAlias cls]"

text \<open>The nodes, predicates and times of the worked examples.\<close>

definition john :: node where "john = Node ''/u'' ''john''"

definition mary :: node where "mary = Node ''/u'' ''mary''"

definition knows :: Predicate where "knows = \<lparr>pred_id = ''knows'', anchor = None\<rparr>"

definition year2013 :: time where "year2013 = Time 1374264724669618843 (- 25200) 0"

definition year2015 :: time where "year2015 = Time 1437336724669618843 (- 25200) 0"

definition met2013 :: Predicate where "met2013 = \<lparr>pred_id = ''met'', anchor = Some year2013\<rparr>"

definition johnKnowsMary :: Triple where
  "johnKnowsMary = Triple john knows (ObjNode mary)"

definition johnMetMary :: Triple where
  "johnMetMary = Triple john met2013 (ObjNode mary)"

text \<open>The clause \<open>/u<john> ?p ?o\<close>, and lookup options with the lower
  anchor 2015.\<close>

definition johnAny :: GraphClause where
  "johnAny = emptyClause\<lparr>clS := Some john, PBinding := ''?p'', OBinding := ''?o''\<rparr>"

definition after2015 :: LookupOptions where
  "after2015 = zeroLookupOptions\<lparr>LowerAnchor := Some year2015\<rparr>"

text \<open>The clause \<open>/u<john> "met"@[2015,] ?o\<close> with the lower bound 2015 on
  the predicate, as the semantic hooks fill it.\<close>

definition since2015 :: GraphClause where
  "since2015 =
     emptyClause\<lparr>clS := Some john, PID := ''met'', PLowerBound := Some year2015,
                 PTemporal := True, OBinding := ''?o''\<rparr>"

text \<open>The same clause with the lower bound read from the binding \<open>?from\<close> of
  the row.\<close>

definition sinceRow :: GraphClause where
  "sinceRow =
     emptyClause\<lparr>clS := Some john, PID := ''met'', PLowerBoundAlias := ''?from'',
                 PTemporal := True, OBinding := ''?o''\<rparr>"

definition timeCell :: "time \<Rightarrow> Cell" where
  "timeCell t = emptyCell\<lparr>cell_T := Some t\<rparr>"

text \<open>The clause \<open>?x "knows"@[] ?o id ?x\<close>: the name \<open>?x\<close> is bound to the
  subject and to the id of the object.\<close>

definition sameName :: GraphClause where
  "sameName = emptyClause\<lparr>SBinding := ''?x'', clP := Some knows, OBinding := ''?o'', OIDAlias := ''?x''\<rparr>"

text \<open>A predicate whose id holds a double quote: \<open>a"b\<close>.\<close>

definition quoted :: Predicate where
  "quoted = \<lparr>pred_id = [CHR ''a'', CHR 0x22, CHR ''b''], anchor = None\<rparr>"

text \<open>
  The cells \<open>tripleToRow\<close> writes before it reaches the anchor of the predicate,
  in the order of the writes: those of the subject slots and of the binding,
  the alias and the id alias of the predicate, for the names that are set.
  \<open>consistent\<close> says that no name is given two unequal cells.
\<close>

definition earlyWrites :: "Triple \<Rightarrow> GraphClause \<Rightarrow> (string \<times> Cell) list" where
  "earlyWrites t cls =
     filter (\<lambda>(k, c). k \<noteq> [])
       [(SBinding cls, emptyCell\<lparr>cell_N := Some (triple_S t)\<rparr>),
        (SAlias cls, emptyCell\<lparr>cell_N := Some (triple_S t)\<rparr>),
        (STypeAlias cls, emptyCell\<lparr>cell_S := node_Type (triple_S t)\<rparr>),
        (SIDAlias cls, emptyCell\<lparr>cell_S := node_ID (triple_S t)\<rparr>),
        (PBinding cls, emptyCell\<lparr>cell_P := Some (triple_P t)\<rparr>),
        (PAlias cls, emptyCell\<lparr>cell_P := Some (triple_P t)\<rparr>),
        (PIDAlias cls, emptyCell\<lparr>cell_S := predicate_ID (triple_P t)\<rparr>)]"

definition consistent :: "(string \<times> Cell) list \<Rightarrow> bool" where
  "consistent ws = (\<forall>(k, c) \<in> set ws. \<forall>(k', c') \<in> set ws. k = k' \<longrightarrow> c = c')"

text \<open>Auxiliary forms of the blocks of \<open>tripleToRow\<close>, for the proofs.\<close>

definition guardedBind :: "string \<times> Cell \<Rightarrow> tr_state \<Rightarrow> flow" where
  "guardedBind w st = (if fst w \<noteq> [] then bindCell (fst w) (snd w) st else Next st)"

definition accepts :: "(string \<rightharpoonup> Cell) \<Rightarrow> (string \<times> Cell) list \<Rightarrow> bool" where
  "accepts bnd ws = ((\<forall>(k, c) \<in> set ws. bnd k = None \<or> bnd k = Some c) \<and> consistent ws)"

definition runWrites :: "tr_state \<Rightarrow> (string \<times> Cell) list \<Rightarrow> flow" where
  "runWrites st ws = foldl thenDo (Next st) (map (\<lambda>w st. bindCell (fst w) (snd w) st) ws)"

text \<open>The clause \<open>?s "knows"@[] at ?a ?o\<close>, and the clause \<open>?x ?x at ?a ?o\<close>
  whose subject and predicate share a name.\<close>

definition anchorOfKnows :: GraphClause where
  "anchorOfKnows = emptyClause\<lparr>SBinding := ''?s'', clP := Some knows, PAnchorAlias := ''?a'', OBinding := ''?o''\<rparr>"

definition clashBeforeAnchor :: GraphClause where
  "clashBeforeAnchor = emptyClause\<lparr>SBinding := ''?x'', PBinding := ''?x'', PAnchorAlias := ''?a'', OBinding := ''?o''\<rparr>"

text \<open>The clause \<open>/u<john> as ?s "knows"@[] /u<mary>\<close>, and the clause
  \<open>/u<john> "knows"@[] at ?a /u<mary>\<close> that asks for the anchor of the
  predicate.\<close>

definition fullyBound :: GraphClause where
  "fullyBound =
     emptyClause\<lparr>clS := Some john, SAlias := ''?s'', clP := Some knows, clO := Some (ObjNode mary)\<rparr>"

definition fullyBoundAnchor :: GraphClause where
  "fullyBoundAnchor =
     emptyClause\<lparr>clS := Some john, clP := Some knows, PAnchorAlias := ''?a'',
                 clO := Some (ObjNode mary)\<rparr>"

text \<open>The clause \<open>/u<john> as ?x "knows"@[] as ?x /u<mary>\<close>, whose subject and
  predicate share an alias, and a graph whose \<open>Exist\<close> fails.\<close>

definition fullyBoundClash :: GraphClause where
  "fullyBoundClash =
     emptyClause\<lparr>clS := Some john, SAlias := ''?x'', clP := Some knows, PAlias := ''?x'',
                 clO := Some (ObjNode mary)\<rparr>"

definition brokenGraph :: Graph where
  "brokenGraph = (memoryGraph [])\<lparr>Exist := (\<lambda>t. Inl (Error ''storage''))\<rparr>"


section \<open>Notions and inputs of the properties of tables on the store\<close>

text \<open>
  Two tables built from one slice.  \<open>bs := make([]string, 1, 3); bs[0] = "?a"\<close>
  is the array at address 0; \<open>t1, _ := New(bs)\<close> is the table at address 2
  (its map at 1); \<open>t2, _ := New(t1.Bindings())\<close> is the table at address 4
  (its map at 3).  Then \<open>t1.AddBindings([]string{"?b", "?c"})\<close> and
  \<open>t2.AddBindings([]string{"?c"})\<close>.
\<close>

definition shared1 :: "store \<times> SliceHeader" where
  "shared1 = makeSlice emptyStore [''?a''] 3"

definition shared2 :: "store \<times> (error + addr)" where
  "shared2 = NewTable (fst shared1) (snd shared1)"

definition shared3 :: "store \<times> (error + addr)" where
  "shared3 = NewTable (fst shared2) (Bindings (fst shared2) 2)"

definition shared4 :: "store \<times> SliceHeader" where
  "shared4 = makeSlice (fst shared3) [''?b'', ''?c''] 2"

definition shared5 :: "(nat \<Rightarrow> nat \<Rightarrow> nat) \<Rightarrow> store \<times> error option" where
  "shared5 grow = AddBindings grow (fst shared4) 2 (snd shared4)"

definition shared6 :: "(nat \<Rightarrow> nat \<Rightarrow> nat) \<Rightarrow> store \<times> SliceHeader" where
  "shared6 grow = makeSlice (fst (shared5 grow)) [''?c''] 1"

definition shared7 :: "(nat \<Rightarrow> nat \<Rightarrow> nat) \<Rightarrow> store \<times> error option" where
  "shared7 grow = AddBindings grow (fst (shared6 grow)) 4 (snd (shared6 grow))"

text \<open>
  Two tables without bindings, of two empty rows each.
  \<open>t, _ := New([]string{}); t.AddRow(Row{}); t.AddRow(Row{})\<close> is the table at
  address 1 (its map at 0), and \<open>u\<close>, built in the same way, the table at
  address 3 (its map at 2).
\<close>

definition unit1 :: "store \<times> (error + addr)" where
  "unit1 = NewTable emptyStore emptySlice"

definition unit2 :: store where
  "unit2 = addRowTo (addRowTo (fst unit1) 1 Map.empty) 1 Map.empty"

definition unit3 :: "store \<times> (error + addr)" where
  "unit3 = NewTable unit2 emptySlice"

definition unit4 :: store where
  "unit4 = addRowTo (addRowTo (fst unit3) 3 Map.empty) 3 Map.empty"

text \<open>The rows that a dot product of the rows \<open>xs\<close> with the rows \<open>ys\<close> is to
  hold: for each row of \<open>xs\<close> in turn, its union with each row of \<open>ys\<close>.\<close>

definition rowProduct :: "PtrRow list \<Rightarrow> PtrRow list \<Rightarrow> PtrRow list" where
  "rowProduct xs ys = concat (map (\<lambda>r1. map (\<lambda>r2. r1 ++ r2) ys) xs)"

text \<open>The text of the cell of the binding \<open>b\<close> in the row \<open>r\<close>: \<open><NULL>\<close> when
  the row has no such key.\<close>

definition cellText :: "(nat \<Rightarrow> bool) \<Rightarrow> (time \<Rightarrow> string) \<Rightarrow> PtrRow \<Rightarrow> string \<Rightarrow> string" where
  "cellText isPrint fmtT r b =
     (case r b of Some (Some c) \<Rightarrow> cell_String isPrint fmtT c | _ \<Rightarrow> ''<NULL>'')"

text \<open>The row \<open>r\<close> maps one of the names to the nil pointer.\<close>

definition nilCell :: "PtrRow \<Rightarrow> string list \<Rightarrow> bool" where
  "nilCell r names = (\<exists>b \<in> set names. r b = Some None)"

text \<open>The layout of \<open>ToText\<close> as the specification words it: the names joined
  by \<open>sep\<close>, a newline, then one line per row, the cells in the order of the
  names and separated by \<open>sep\<close>.\<close>

definition ToText_spec ::
  "(nat \<Rightarrow> bool) \<Rightarrow> (time \<Rightarrow> string) \<Rightarrow> string list \<Rightarrow> PtrRow list \<Rightarrow> string \<Rightarrow> string" where
  "ToText_spec isPrint fmtT names rows sep =
     Join names sep @ [CHR 0x0A]
     @ concat (map (\<lambda>r. Join (map (cellText isPrint fmtT r) names) sep @ [CHR 0x0A]) rows)"

text \<open>Stand-ins for \<open>time.Time.Format\<close> and \<open>strconv.IsPrint\<close> where no cell
  holds a time or a predicate.\<close>

definition noTimes :: "time \<Rightarrow> string" where
  "noTimes t = []"

definition noRunes :: "nat \<Rightarrow> bool" where
  "noRunes r = False"

text \<open>
  A table of two bindings: \<open>t, _ := New([]string{"?foo", "?bar"})\<close> is the
  table at address 2 (the array of the names at 0, the map at 1).
  \<open>pairStore\<close> is the store after
  \<open>t.AddRow(Row{"?foo": &Cell{S: "foo"}, "?bar": &Cell{S: "bar"}})\<close> and
  \<open>t.AddRow(Row{"?foo": &Cell{}})\<close>, and \<open>nilStore\<close> the store after a third
  call, \<open>t.AddRow(Row{"?foo": &Cell{S: "foo"}, "?bar": nil})\<close>.
\<close>

definition pair1 :: "store \<times> SliceHeader" where
  "pair1 = makeSlice emptyStore [''?foo'', ''?bar''] 2"

definition pair2 :: "store \<times> (error + addr)" where
  "pair2 = NewTable (fst pair1) (snd pair1)"

definition pairStore :: store where
  "pairStore =
     addRowTo
       (addRowTo (fst pair2) 2 [''?foo'' \<mapsto> Some (strCell ''foo''), ''?bar'' \<mapsto> Some (strCell ''bar'')])
       2 [''?foo'' \<mapsto> Some emptyCell]"

definition nilStore :: store where
  "nilStore = addRowTo pairStore 2 [''?foo'' \<mapsto> Some (strCell ''foo''), ''?bar'' \<mapsto> None]"

section \<open>Properties of the result table\<close>

subsection \<open>Row and DeleteRow\<close>

text \<open>
  Claim C10.  \<open>Row(i)\<close> returns \<open>(nil, false)\<close> for every \<open>i\<close> from \<open>NumRows()\<close>
  on, and the \<open>i\<close>-th row with \<open>true\<close> for every \<open>i\<close> in \<open>[0, NumRows())\<close>.  Its
  guard does not cover the negative indices: for every \<open>i < 0\<close> the access
  \<open>t.data[i]\<close> is out of range and panics.  \<open>DeleteRow\<close> rejects both
  \<open>i < 0\<close> and \<open>i \<ge> NumRows()\<close> with an error and leaves the table as it was.
\<close>

theorem Row_and_DeleteRow_bounds:
  "(\<forall>i. NumRows t \<le> i \<longrightarrow> Row t i = Inr (None, False)) \<and>
   (\<forall>i. 0 \<le> i \<and> i < NumRows t \<longrightarrow> Row t i = Inr (Some (Rows t ! nat i), True)) \<and>
   (\<forall>i. i < 0 \<longrightarrow> Row t i = Inl IndexOutOfRange) \<and>
   (\<forall>i. i < 0 \<or> NumRows t \<le> i \<longrightarrow> (\<exists>e. DeleteRow t i = (t, Some e)))"
  by (auto simp add: Row_def NumRows_def Rows_def DeleteRow_def)

theorem Row_and_DeleteRow_bounds_witness:
  "NumRows fooTable = 2 \<and>
   Row fooTable 2 = Inr (None, False) \<and>
   Row fooTable 1 = Inr (Some [''?foo'' \<mapsto> strCell ''f1''], True) \<and>
   Row fooTable (- 1) = Inl IndexOutOfRange \<and>
   (\<exists>e. DeleteRow fooTable (- 1) = (fooTable, Some e)) \<and>
   (\<exists>e. DeleteRow fooTable 2 = (fooTable, Some e))"
proof -
  have n: "NumRows fooTable = 2"
    by (simp add: NumRows_def fooTable_def)
  have r1: "Rows fooTable ! nat 1 = [''?foo'' \<mapsto> strCell ''f1'']"
    by (simp add: Rows_def fooTable_def)
  note b = Row_and_DeleteRow_bounds [of fooTable]
  from b n have "Row fooTable 2 = Inr (None, False)" by simp
  moreover from b n have "Row fooTable 1 = Inr (Some (Rows fooTable ! nat 1), True)" by simp
  moreover from b have "Row fooTable (- 1) = Inl IndexOutOfRange" by simp
  moreover from b have "\<exists>e. DeleteRow fooTable (- 1) = (fooTable, Some e)" by simp
  moreover from b n have "\<exists>e. DeleteRow fooTable 2 = (fooTable, Some e)" by simp
  ultimately show ?thesis using n r1 by simp
qed

section \<open>Properties of tables on the store\<close>

lemmas store_defs = makeSlice_def allocArray_def allocMap_def allocTable_def emptyStore_def
  NewTable_def New_def sliceElems_def arrayOf_def Bindings_def BindingNames_def RowsOf_def
  AddBindings_def addBinding_def mapOf_def appendString_def emptySlice_def addRowTo_def Let_def

subsection \<open>The binding list\<close>

lemma dom_foldl_upd:
  "dom (foldl (\<lambda>m b. m(b \<mapsto> True)) m0 names) = dom m0 \<union> set names"
  by (induction names arbitrary: m0) auto

lemma New_fails_iff: "(\<exists>e. New names = Inl e) = (\<not> distinct names)"
  by (auto simp add: New_def Let_def dom_foldl_upd distinct_card dest: card_distinct)

lemma NewTable_keeps_slice:
  assumes "distinct (sliceElems h names)"
  shows "snd (NewTable h names) = Inr (st_next h + 1) \<and>
         Bindings (fst (NewTable h names)) (st_next h + 1) = names"
proof -
  from assms have "\<not> (\<exists>e. New (sliceElems h names) = Inl e)"
    by (simp only: New_fails_iff) simp
  then obtain v where "New (sliceElems h names) = Inr v"
    by (cases "New (sliceElems h names)") auto
  then show ?thesis
    by (simp add: NewTable_def allocMap_def allocTable_def Bindings_def Let_def)
qed

text \<open>
  Claim C8.  The binding list of every table is duplicate-free, and every
  operation that changes the bindings keeps it so.  The code does not: \<open>New\<close>
  keeps the slice of its caller and \<open>AddBindings\<close> appends in place.  With
  \<open>bs := make([]string, 1, 3); bs[0] = "?a"\<close>, \<open>t1, _ := New(bs)\<close> and
  \<open>t2, _ := New(t1.Bindings())\<close> both calls of \<open>New\<close> succeed (tables 2 and 4)
  and the two tables hold the same slice.  \<open>t1.AddBindings([]string{"?b", "?c"})\<close>
  returns and gives \<open>t1\<close> the bindings \<open>?a ?b ?c\<close>.
  Then \<open>t2.AddBindings([]string{"?c"})\<close> returns, gives \<open>t2\<close> the bindings
  \<open>?a ?c\<close>, and leaves \<open>t1\<close> with the bindings \<open>?a ?c ?c\<close>, whatever capacity the
  run time chooses for a slice that grows.
\<close>

theorem AddBindings_shared_array_duplicate:
  "snd shared2 = Inr 2 \<and> snd shared3 = Inr 4 \<and>
   Bindings (fst shared3) 2 = Bindings (fst shared3) 4 \<and>
   snd (shared5 grow) = None \<and>
   BindingNames (fst (shared5 grow)) 2 = [''?a'', ''?b'', ''?c''] \<and>
   snd (shared7 grow) = None \<and>
   BindingNames (fst (shared7 grow)) 4 = [''?a'', ''?c''] \<and>
   BindingNames (fst (shared7 grow)) 2 = [''?a'', ''?c'', ''?c''] \<and>
   \<not> distinct (BindingNames (fst (shared7 grow)) 2)"
  by (simp add: shared7_def shared6_def shared5_def shared4_def shared3_def shared2_def shared1_def
        store_defs eval_nat_numeral upt_rec)

subsection \<open>The dot product\<close>

lemma MergeRows_two: "MergeRows [r1, r2] = r1 ++ r2"
  by (simp add: MergeRows_def)

lemma disjointBinding_iff: "disjointBinding b1 b2 = (dom b1 \<inter> dom b2 = {})"
  by (auto simp add: disjointBinding_def keyCount_def split: if_splits)

text \<open>
  Claim C5.  For every pair of tables \<open>A\<close> and \<open>B\<close>, \<open>A.DotProduct(B)\<close> succeeds
  iff their binding sets are disjoint, and then leaves \<open>A\<close> with the unions of
  each row of \<open>A\<close> with each row of \<open>B\<close>, \<open>|A| * |B|\<close> rows.  The code does not
  when \<open>B\<close> is \<open>A\<close> itself.  For the table \<open>t\<close> without bindings and with two
  empty rows, \<open>t.DotProduct(t)\<close> returns nil, the binding sets being disjoint,
  and leaves \<open>t\<close> without any row, where the row product has four:
  \<open>t.data\<close> is emptied before the inner loop ranges over \<open>t2.data\<close>, which is
  the same field.  With the table \<open>u\<close> of the same content, \<open>t.DotProduct(u)\<close>
  leaves the four rows.
\<close>

theorem DotProduct_self_loses_rows:
  "snd unit1 = Inr 1 \<and> snd unit3 = Inr 3 \<and>
   BindingNames unit4 1 = [] \<and> BindingNames unit4 3 = [] \<and>
   map_option (mapOf unit4) (st_tables unit4 1) = Some Map.empty \<and>
   map_option (mapOf unit4) (st_tables unit4 3) = Some Map.empty \<and>
   RowsOf unit4 1 = [Map.empty, Map.empty] \<and> RowsOf unit4 3 = [Map.empty, Map.empty] \<and>
   keyOrder [] (setKeys Map.empty (setKeys Map.empty Map.empty)) \<and>
   snd (DotProduct grow [] unit4 1 1) = None \<and>
   RowsOf (fst (DotProduct grow [] unit4 1 1)) 1 = [] \<and>
   rowProduct (RowsOf unit4 1) (RowsOf unit4 1) = [Map.empty, Map.empty, Map.empty, Map.empty] \<and>
   snd (DotProduct grow [] unit4 1 3) = None \<and>
   RowsOf (fst (DotProduct grow [] unit4 1 3)) 1 = [Map.empty, Map.empty, Map.empty, Map.empty]"
  by (simp add: unit4_def unit3_def unit2_def unit1_def DotProduct_def disjointBinding_iff
        keyOrder_def setKeys_def rowProduct_def MergeRows_two store_defs eval_nat_numeral)

text \<open>
  For two tables at different addresses, \<open>DotProduct\<close> succeeds iff the key
  sets of their maps are disjoint, and then leaves the receiver with the row
  product and the rows of the argument as they were.
\<close>

lemma appendString_tables: "st_tables (fst (appendString grow h s x)) = st_tables h"
  by (simp add: appendString_def makeSlice_def allocArray_def Let_def)

lemma foldl_appendString_tables:
  "st_tables (fst (foldl (\<lambda>(h, s) k. appendString grow h s k) hs ks)) = st_tables (fst hs)"
proof (induction ks arbitrary: hs)
  case Nil
  show ?case by simp
next
  case (Cons k ks)
  obtain h s where hs: "hs = (h, s)" by (cases hs)
  show ?case by (simp add: Cons.IH hs appendString_tables)
qed

lemma addRowTo_rows:
  assumes "st_tables h a = Some t"
  shows "foldl (\<lambda>h r. addRowTo h a (f r)) h rs
           = h\<lparr>st_tables := (st_tables h)(a \<mapsto> t\<lparr>t_data := t_data t @ map f rs\<rparr>)\<rparr>"
  using assms
proof (induction rs arbitrary: h t)
  case Nil
  then have "(st_tables h)(a \<mapsto> t) = st_tables h" by (simp add: fun_upd_idem)
  then show ?case by simp
next
  case (Cons r rs)
  let ?h1 = "addRowTo h a (f r)"
  have t1: "st_tables ?h1 a = Some (t\<lparr>t_data := t_data t @ [f r]\<rparr>)"
    using Cons.prems by (simp add: addRowTo_def)
  have h1: "?h1 = h\<lparr>st_tables := (st_tables h)(a \<mapsto> t\<lparr>t_data := t_data t @ [f r]\<rparr>)\<rparr>"
    using Cons.prems by (simp add: addRowTo_def)
  have "foldl (\<lambda>h r. addRowTo h a (f r)) h (r # rs) = foldl (\<lambda>h r. addRowTo h a (f r)) ?h1 rs"
    by simp
  also have "\<dots> = ?h1\<lparr>st_tables := (st_tables ?h1)
      (a \<mapsto> (t\<lparr>t_data := t_data t @ [f r]\<rparr>)\<lparr>t_data := t_data (t\<lparr>t_data := t_data t @ [f r]\<rparr>) @ map f rs\<rparr>)\<rparr>"
    by (rule Cons.IH [OF t1])
  also have "\<dots> = h\<lparr>st_tables := (st_tables h)(a \<mapsto> t\<lparr>t_data := t_data t @ map f (r # rs)\<rparr>)\<rparr>"
    by (simp add: h1)
  finally show ?case .
qed

lemma DotProduct_rows:
  assumes "st_tables h a = Some t" and "a2 \<noteq> a" and "st_tables h a2 = Some t2"
  shows "foldl (\<lambda>h r1. foldl (\<lambda>h r2. addRowTo h a (MergeRows [r1, r2])) h (RowsOf h a2)) h rs
           = h\<lparr>st_tables := (st_tables h)(a \<mapsto> t\<lparr>t_data := t_data t @ rowProduct rs (t_data t2)\<rparr>)\<rparr>"
  using assms
proof (induction rs arbitrary: h t)
  case Nil
  then have "(st_tables h)(a \<mapsto> t) = st_tables h" by (simp add: fun_upd_idem)
  then show ?case by (simp add: rowProduct_def)
next
  case (Cons r rs)
  let ?t1 = "t\<lparr>t_data := t_data t @ map (\<lambda>r2. r ++ r2) (t_data t2)\<rparr>"
  let ?h1 = "h\<lparr>st_tables := (st_tables h)(a \<mapsto> ?t1)\<rparr>"
  have inner: "foldl (\<lambda>h r2. addRowTo h a (MergeRows [r, r2])) h (RowsOf h a2) = ?h1"
    using addRowTo_rows [OF Cons.prems(1), of "\<lambda>r2. MergeRows [r, r2]" "t_data t2"] Cons.prems(3)
    by (simp add: RowsOf_def MergeRows_two)
  have t1: "st_tables ?h1 a = Some ?t1" by simp
  have t2: "st_tables ?h1 a2 = Some t2" using Cons.prems by simp
  have "foldl (\<lambda>h r1. foldl (\<lambda>h r2. addRowTo h a (MergeRows [r1, r2])) h (RowsOf h a2)) h (r # rs)
      = foldl (\<lambda>h r1. foldl (\<lambda>h r2. addRowTo h a (MergeRows [r1, r2])) h (RowsOf h a2)) ?h1 rs"
    by (simp add: inner)
  also have "\<dots> = ?h1\<lparr>st_tables := (st_tables ?h1)
      (a \<mapsto> ?t1\<lparr>t_data := t_data ?t1 @ rowProduct rs (t_data t2)\<rparr>)\<rparr>"
    by (rule Cons.IH [OF t1 Cons.prems(2) t2])
  also have "\<dots> = h\<lparr>st_tables := (st_tables h)
      (a \<mapsto> t\<lparr>t_data := t_data t @ rowProduct (r # rs) (t_data t2)\<rparr>)\<rparr>"
    by (simp add: rowProduct_def)
  finally show ?case .
qed

lemma length_rowProduct: "length (rowProduct xs ys) = length xs * length ys"
  by (induction xs) (simp_all add: rowProduct_def)

lemma DotProduct_distinct_tables:
  assumes "st_tables h a = Some t" and "st_tables h a2 = Some t2" and "a2 \<noteq> a"
  shows "(snd (DotProduct grow ks h a a2) = None) = (dom (mapOf h t) \<inter> dom (mapOf h t2) = {})"
    and "snd (DotProduct grow ks h a a2) = None \<Longrightarrow>
         RowsOf (fst (DotProduct grow ks h a a2)) a = rowProduct (t_data t) (t_data t2) \<and>
         length (RowsOf (fst (DotProduct grow ks h a a2)) a) = length (t_data t) * length (t_data t2) \<and>
         RowsOf (fst (DotProduct grow ks h a a2)) a2 = t_data t2"
proof -
  show "(snd (DotProduct grow ks h a a2) = None) = (dom (mapOf h t) \<inter> dom (mapOf h t2) = {})"
    using assms by (simp add: DotProduct_def disjointBinding_iff Let_def split_beta)
next
  assume ok: "snd (DotProduct grow ks h a a2) = None"
  then have d: "disjointBinding (mapOf h t) (mapOf h t2)"
    using assms by (simp add: DotProduct_def Let_def split: if_splits)
  define m where "m = setKeys (mapOf h t2) (setKeys (mapOf h t) Map.empty)"
  define h1 where "h1 = fst (allocMap h m)"
  define mr where "mr = snd (allocMap h m)"
  define hs where "hs = foldl (\<lambda>(h, s) k. appendString grow h s k) (h1, emptySlice) ks"
  define t0 where "t0 = \<lparr>t_bs = snd hs, t_mbs = Some mr, t_data = []\<rparr>"
  define h3 where "h3 = (fst hs)\<lparr>st_tables := (st_tables (fst hs))(a \<mapsto> t0)\<rparr>"
  have tabs: "st_tables (fst hs) = st_tables h"
    by (simp add: hs_def foldl_appendString_tables h1_def allocMap_def)
  have a: "st_tables h3 a = Some t0" by (simp add: h3_def)
  have a2: "st_tables h3 a2 = Some t2" using assms by (simp add: h3_def tabs)
  have "fst (DotProduct grow ks h a a2)
          = foldl (\<lambda>h r1. foldl (\<lambda>h r2. addRowTo h a (MergeRows [r1, r2])) h (RowsOf h a2)) h3 (t_data t)"
    using assms d
    by (simp add: DotProduct_def Let_def split_beta m_def h1_def mr_def hs_def t0_def h3_def)
  also have "\<dots> = h3\<lparr>st_tables := (st_tables h3)(a \<mapsto> t0\<lparr>t_data := t_data t0 @ rowProduct (t_data t) (t_data t2)\<rparr>)\<rparr>"
    by (rule DotProduct_rows [OF a assms(3) a2])
  finally have r: "fst (DotProduct grow ks h a a2)
          = h3\<lparr>st_tables := (st_tables h3)(a \<mapsto> t0\<lparr>t_data := rowProduct (t_data t) (t_data t2)\<rparr>)\<rparr>"
    by (simp add: t0_def)
  show "RowsOf (fst (DotProduct grow ks h a a2)) a = rowProduct (t_data t) (t_data t2) \<and>
         length (RowsOf (fst (DotProduct grow ks h a a2)) a) = length (t_data t) * length (t_data t2) \<and>
         RowsOf (fst (DotProduct grow ks h a a2)) a2 = t_data t2"
    using assms(3) a2 by (simp add: r RowsOf_def length_rowProduct)
qed

subsection \<open>Serialization\<close>

lemma Join_Cons: "Join (x # xs) sep = (if xs = [] then x else x @ sep @ Join xs sep)"
  by (cases xs) simp_all

lemma ToTextLine_loop_Join:
  "\<not> nilCell r names \<Longrightarrow>
   ToTextLine_loop isPrint fmtT r sep (int (length names)) names res
     = Inr (res @ Join (map (cellText isPrint fmtT r) names) sep)"
proof (induction names arbitrary: res)
  case Nil
  show ?case by simp
next
  case (Cons b names)
  from Cons.prems have nb: "r b \<noteq> Some None" and nn: "\<not> nilCell r names"
    by (simp_all add: nilCell_def)
  from nb have "ToTextLine_loop isPrint fmtT r sep (int (length (b # names))) (b # names) res
      = ToTextLine_loop isPrint fmtT r sep (int (length names)) names
          (if names = [] then res @ cellText isPrint fmtT r b
           else (res @ cellText isPrint fmtT r b) @ sep)"
    by (simp add: Let_def cellText_def cellPtr_String_def split: option.splits)
  also have "\<dots> = Inr (res @ Join (map (cellText isPrint fmtT r) (b # names)) sep)"
    by (simp add: Cons.IH [OF nn] Join_Cons)
  finally show ?case .
qed

lemma ToTextLine_loop_nil:
  "nilCell r names \<Longrightarrow> ToTextLine_loop isPrint fmtT r sep cnt names res = Inl NilDereference"
proof (induction names arbitrary: cnt res)
  case Nil
  then show ?case by (simp add: nilCell_def)
next
  case (Cons b names)
  show ?case
  proof (cases "r b = Some None")
    case True
    then show ?thesis by (simp add: cellPtr_String_def)
  next
    case False
    with Cons.prems have "nilCell r names" by (auto simp add: nilCell_def)
    then show ?thesis
      by (simp add: Cons.IH Let_def cellPtr_String_def split: option.splits sum.splits)
  qed
qed

lemma ToTextLine_Join:
  "ToTextLine isPrint fmtT r res names sep =
     (if nilCell r names then Inl NilDereference
      else Inr (res @ Join (map (cellText isPrint fmtT r) names)
                        (if sep = [] then [CHR 0x09] else sep)))"
  by (simp add: ToTextLine_def Let_def ToTextLine_loop_Join ToTextLine_loop_nil)

lemma ToText_loop_lines:
  "ToText_loop isPrint fmtT names sep rows res =
     (if \<exists>r \<in> set rows. nilCell r names then Inl NilDereference
      else Inr (res @ concat (map (\<lambda>r. Join (map (cellText isPrint fmtT r) names)
                                  (if sep = [] then [CHR 0x09] else sep) @ [CHR 0x0A]) rows)))"
  by (induction rows arbitrary: res) (simp_all add: ToTextLine_Join)

text \<open>
  Claim C9, as the specification states it: for every table and separator,
  \<open>ToText(sep)\<close> succeeds and returns the binding names joined by \<open>sep\<close>, a
  newline, then one line per row in row order, each line listing the cells of
  the row in binding order separated by \<open>sep\<close>.  It fails for the empty
  separator: the header is joined by the empty string, and the cells by a tab.
  And it fails for a row that maps a binding to the nil pointer, which
  \<open>AddRow\<close> accepts: \<open>ToTextLine\<close> calls \<open>String\<close> on it, and the call panics.
\<close>

theorem ToText_counterexample:
  "ToText noRunes noTimes pairStore 2 []
     = Inr (''?foo?bar'' @ [CHR 0x0A] @ ''foo'' @ [CHR 0x09] @ ''bar'' @ [CHR 0x0A]
            @ ''<NULL>'' @ [CHR 0x09] @ ''<NULL>'' @ [CHR 0x0A]) \<and>
   ToText_spec noRunes noTimes (BindingNames pairStore 2) (RowsOf pairStore 2) []
     = ''?foo?bar'' @ [CHR 0x0A] @ ''foobar'' @ [CHR 0x0A] @ ''<NULL><NULL>'' @ [CHR 0x0A] \<and>
   ToText noRunes noTimes pairStore 2 []
     \<noteq> Inr (ToText_spec noRunes noTimes (BindingNames pairStore 2) (RowsOf pairStore 2) []) \<and>
   ToText noRunes noTimes nilStore 2 '', '' = Inl NilDereference"
  by (simp add: ToText_def ToText_spec_def nilStore_def pairStore_def pair2_def pair1_def
        ToTextLine_def cellText_def cellPtr_String_def cell_String_def strCell_def emptyCell_def
        store_defs eval_nat_numeral)

text \<open>
  Claim C9, amended.  For every table \<open>t\<close> none of whose rows maps a binding of
  \<open>t\<close> to the nil pointer, and every separator \<open>sep\<close>, \<open>ToText(sep)\<close> succeeds
  and returns the binding names joined by \<open>sep\<close>, a newline, then one line per
  row in row order, each line listing the cells of the row in binding order,
  separated by \<open>sep\<close>, or by a tab when \<open>sep\<close> is empty.  A cell that is missing
  from the row or empty is rendered as \<open><NULL>\<close>.  When a row maps a binding of
  \<open>t\<close> to the nil pointer, \<open>ToText\<close> panics.
\<close>

theorem ToText_layout:
  assumes "st_tables h a = Some t"
  shows "ToText isPrint fmtT h a sep =
     (if \<exists>r \<in> set (RowsOf h a). nilCell r (BindingNames h a) then Inl NilDereference
      else Inr (Join (BindingNames h a) sep @ [CHR 0x0A]
          @ concat (map (\<lambda>r. Join (map (cellText isPrint fmtT r) (BindingNames h a))
                                (if sep = [] then [CHR 0x09] else sep) @ [CHR 0x0A]) (RowsOf h a))))
   \<and> (r b = None \<longrightarrow> cellText isPrint fmtT r b = ''<NULL>'')
   \<and> (r b = Some (Some emptyCell) \<longrightarrow> cellText isPrint fmtT r b = ''<NULL>'')
   \<and> (sep \<noteq> [] \<and> \<not> (\<exists>r \<in> set (RowsOf h a). nilCell r (BindingNames h a)) \<longrightarrow>
        ToText isPrint fmtT h a sep
          = Inr (ToText_spec isPrint fmtT (BindingNames h a) (RowsOf h a) sep))"
  using assms
  by (simp add: ToText_def ToText_loop_lines BindingNames_def Bindings_def RowsOf_def
        cellText_def cell_String_def emptyCell_def ToText_spec_def)

theorem ToText_layout_witness:
  "st_tables pairStore 2 \<noteq> None \<and> st_tables nilStore 2 \<noteq> None \<and>
   ToText noRunes noTimes pairStore 2 '', ''
     = Inr (''?foo, ?bar'' @ [CHR 0x0A] @ ''foo, bar'' @ [CHR 0x0A] @ ''<NULL>, <NULL>'' @ [CHR 0x0A]) \<and>
   ToText noRunes noTimes pairStore 2 []
     = Inr (''?foo?bar'' @ [CHR 0x0A] @ ''foo'' @ [CHR 0x09] @ ''bar'' @ [CHR 0x0A]
            @ ''<NULL>'' @ [CHR 0x09] @ ''<NULL>'' @ [CHR 0x0A]) \<and>
   ToText noRunes noTimes nilStore 2 '', '' = Inl NilDereference \<and>
   cellText noRunes noTimes Map.empty ''?foo'' = ''<NULL>'' \<and>
   cellText noRunes noTimes [''?foo'' \<mapsto> Some emptyCell] ''?foo'' = ''<NULL>'' \<and>
   ToText noRunes noTimes pairStore 2 '', ''
     = Inr (ToText_spec noRunes noTimes (BindingNames pairStore 2) (RowsOf pairStore 2) '', '')"
proof -
  let ?full = "[''?foo'' \<mapsto> Some (strCell ''foo''), ''?bar'' \<mapsto> Some (strCell ''bar'')]"
  let ?half = "[''?foo'' \<mapsto> Some emptyCell]"
  let ?nil = "[''?foo'' \<mapsto> Some (strCell ''foo''), ''?bar'' \<mapsto> None]"
  let ?bs = "\<lparr>sl_array = 0, sl_first = 0, sl_len = 2, sl_cap = 2\<rparr>"
  have p: "st_tables pairStore 2 = Some \<lparr>t_bs = ?bs, t_mbs = Some 1, t_data = [?full, ?half]\<rparr>"
    by (simp add: pairStore_def pair2_def pair1_def store_defs eval_nat_numeral)
  have n: "st_tables nilStore 2 = Some \<lparr>t_bs = ?bs, t_mbs = Some 1, t_data = [?full, ?half, ?nil]\<rparr>"
    by (simp add: nilStore_def pairStore_def pair2_def pair1_def store_defs eval_nat_numeral)
  have names: "BindingNames pairStore 2 = [''?foo'', ''?bar'']"
    "BindingNames nilStore 2 = [''?foo'', ''?bar'']"
    by (simp_all add: nilStore_def pairStore_def pair2_def pair1_def store_defs eval_nat_numeral)
  have rows: "RowsOf pairStore 2 = [?full, ?half]" "RowsOf nilStore 2 = [?full, ?half, ?nil]"
    by (simp_all add: RowsOf_def p n)
  have c: "cellText noRunes noTimes ?full ''?foo'' = ''foo''"
    "cellText noRunes noTimes ?full ''?bar'' = ''bar''"
    "cellText noRunes noTimes ?half ''?foo'' = ''<NULL>''"
    "cellText noRunes noTimes ?half ''?bar'' = ''<NULL>''"
    by (simp_all add: cellText_def cell_String_def strCell_def emptyCell_def)
  have ok: "\<not> nilCell ?full [''?foo'', ''?bar'']" "\<not> nilCell ?half [''?foo'', ''?bar'']"
    and bad: "nilCell ?nil [''?foo'', ''?bar'']"
    by (simp_all add: nilCell_def)
  have "ToText noRunes noTimes pairStore 2 '', ''
     = Inr (''?foo, ?bar'' @ [CHR 0x0A] @ ''foo, bar'' @ [CHR 0x0A] @ ''<NULL>, <NULL>'' @ [CHR 0x0A])"
    using ToText_layout [OF p, of noRunes noTimes "'', ''" Map.empty "''?foo''"] c ok
    by (simp add: names rows)
  moreover have "ToText noRunes noTimes pairStore 2 []
     = Inr (''?foo?bar'' @ [CHR 0x0A] @ ''foo'' @ [CHR 0x09] @ ''bar'' @ [CHR 0x0A]
            @ ''<NULL>'' @ [CHR 0x09] @ ''<NULL>'' @ [CHR 0x0A])"
    using ToText_layout [OF p, of noRunes noTimes "[]" Map.empty "''?foo''"] c ok
    by (simp add: names rows)
  moreover have "ToText noRunes noTimes nilStore 2 '', '' = Inl NilDereference"
    using ToText_layout [OF n, of noRunes noTimes "'', ''" Map.empty "''?foo''"] bad
    by (simp add: names rows)
  moreover have "cellText noRunes noTimes Map.empty ''?foo'' = ''<NULL>''"
    using ToText_layout [OF p, of noRunes noTimes "'', ''" Map.empty "''?foo''"] by simp
  moreover have "cellText noRunes noTimes ?half ''?foo'' = ''<NULL>''"
    using ToText_layout [OF p, of noRunes noTimes "'', ''" ?half "''?foo''"] by simp
  moreover have "ToText noRunes noTimes pairStore 2 '', ''
     = Inr (ToText_spec noRunes noTimes (BindingNames pairStore 2) (RowsOf pairStore 2) '', '')"
  proof -
    have ne: "'', '' \<noteq> ([] :: string)" by simp
    have nn: "\<not> (\<exists>r \<in> set (RowsOf pairStore 2). nilCell r (BindingNames pairStore 2))"
      using ok by (simp add: names rows)
    from ToText_layout [OF p, of noRunes noTimes "'', ''" Map.empty "''?foo''"] ne nn
    show ?thesis by blast
  qed
  ultimately show ?thesis using p n by simp
qed

section \<open>Properties of the planner\<close>

subsection \<open>Time bounds\<close>

lemmas tripleToRow_defs =
  tripleToRow_def subjectBlocks_def predicateBlocks_def objectBlocks_def
  blockSBinding_def blockSAlias_def blockSTypeAlias_def blockSIDAlias_def blockPBinding_def
  blockPAlias_def blockPIDAlias_def blockPAnchorBinding_def blockPAnchorAlias_def anchorBlock_def
  blockOBinding_def blockOAlias_def blockOTypeAlias_def blockOIDAlias_def
  blockOAnchorBinding_def blockOAnchorAlias_def objAnchorBlock_def
  thenDo_def finish_def bindCell_def validBinding_def objectToCell_def
  object_Node_def object_Predicate_def object_Literal_def
  predicate_Type_def predicate_ID_def TimeAnchor_def

lemma updateTimeBounds_returns_zero: "snd (updateTimeBounds lo cls) = zeroLookupOptions"
  by (simp add: updateTimeBounds_def Let_def)

lemma simpleFetch_subject_only:
  assumes "clS cls = Some s" "clP cls = None" "clO cls = None" "New (bindingsOf cls) = Inr tbl"
  shows "snd (simpleFetch bindingsOf [g] cls lo)
    = addAll (TriplesForSubject g s zeroLookupOptions) cls tbl"
  using assms updateTimeBounds_returns_zero [of lo cls]
  by (simp add: simpleFetch_def split_beta Let_def split: sum.splits)

text \<open>
  Claim C1.  The specification has \<open>simpleFetch\<close> pass to the storage the
  lookup options tightened by the bounds of the clause.  \<open>updateTimeBounds\<close>
  assigns the tightened anchors to the struct of its caller and returns a new,
  empty struct, and \<open>simpleFetch\<close> keeps the struct returned.  So the storage
  is asked with no anchor at all.  For the clause \<open>/u<john> ?p ?o\<close> and
  incoming options with the lower anchor 2015, the reference graph returns the
  triple anchored in 2013, which the options exclude, and \<open>simpleFetch\<close> emits
  its row.
\<close>

theorem simpleFetch_drops_time_bounds:
  "snd (updateTimeBounds lo cls) = zeroLookupOptions \<and>
   updateTimeBounds zeroLookupOptions since2015 = (after2015, zeroLookupOptions) \<and>
   updateTimeBounds after2015 johnAny = (after2015, zeroLookupOptions) \<and>
   \<not> inWindow after2015 met2013 \<and>
   TriplesForSubject (memoryGraph [johnMetMary]) john after2015 = Inr [] \<and>
   map_sum id Rows (snd (simpleFetch clauseNames [memoryGraph [johnMetMary]] johnAny after2015))
     = Inr [[''?p'' \<mapsto> emptyCell\<lparr>cell_P := Some met2013\<rparr>,
             ''?o'' \<mapsto> emptyCell\<lparr>cell_N := Some mary\<rparr>]]"
proof -
  have u: "updateTimeBounds zeroLookupOptions since2015 = (after2015, zeroLookupOptions)"
    by (simp add: updateTimeBounds_def since2015_def emptyClause_def zeroLookupOptions_def
          after2015_def Let_def)
  have v: "updateTimeBounds after2015 johnAny = (after2015, zeroLookupOptions)"
    by (simp add: updateTimeBounds_def johnAny_def emptyClause_def Let_def)
  have w: "\<not> inWindow after2015 met2013"
    by (simp add: inWindow_def after2015_def zeroLookupOptions_def met2013_def After_def
          year2015_def year2013_def)
  then have x: "TriplesForSubject (memoryGraph [johnMetMary]) john after2015 = Inr []"
    by (simp add: memoryGraph_def lookup_def capped_def johnMetMary_def)
  have n: "New (clauseNames johnAny)
     = Inr \<lparr>bs = [''?p'', ''?o''], mbs = [''?p'' \<mapsto> True, ''?o'' \<mapsto> True], data = []\<rparr>"
    by (simp add: clauseNames_def johnAny_def emptyClause_def New_def)
  have t: "TriplesForSubject (memoryGraph [johnMetMary]) john zeroLookupOptions = Inr [johnMetMary]"
    by (simp add: memoryGraph_def lookup_def capped_def inWindow_def zeroLookupOptions_def
          johnMetMary_def met2013_def)
  have r: "tripleToRow johnMetMary johnAny
     = Inr (Some [''?p'' \<mapsto> emptyCell\<lparr>cell_P := Some met2013\<rparr>,
                  ''?o'' \<mapsto> emptyCell\<lparr>cell_N := Some mary\<rparr>])"
    by (simp add: tripleToRow_defs johnAny_def emptyClause_def johnMetMary_def)
  have p: "passesP johnAny johnMetMary = Inr True" "passesO johnAny johnMetMary = Inr True"
    by (simp_all add: passesP_def passesO_def johnAny_def emptyClause_def)
  have s: "clS johnAny = Some john" "clP johnAny = None" "clO johnAny = None"
    by (simp_all add: johnAny_def emptyClause_def)
  have "snd (simpleFetch clauseNames [memoryGraph [johnMetMary]] johnAny after2015)
     = Inr \<lparr>bs = [''?p'', ''?o''], mbs = [''?p'' \<mapsto> True, ''?o'' \<mapsto> True],
            data = [[''?p'' \<mapsto> emptyCell\<lparr>cell_P := Some met2013\<rparr>,
                     ''?o'' \<mapsto> emptyCell\<lparr>cell_N := Some mary\<rparr>]]\<rparr>"
    by (simp add: simpleFetch_subject_only [where bindingsOf = clauseNames, OF s n] t addAll_def
          r p AddRow_def)
  with u v w x show ?thesis by (simp add: updateTimeBounds_returns_zero Rows_def)
qed

text \<open>
  Claim C2.  The specification has \<open>updateTimeBoundsForRow\<close> tighten the
  lookup options by the bound alias cells of the row, and return an error for
  a bound alias cell without a time.  The function returns what its last call
  of \<open>updateTimeBounds\<close> returns, the empty options, whatever the bounds of
  the clause and the cells of the row are: with the lower bound alias \<open>?from\<close>
  and the row cell 2015 the options returned have no lower anchor.  A bound
  alias cell without a time is the error the specification describes.
\<close>

theorem updateTimeBoundsForRow_drops_bounds:
  "updateTimeBoundsForRow zeroLookupOptions sinceRow [''?from'' \<mapsto> timeCell year2015]
     = (zeroLookupOptions, Inr zeroLookupOptions) \<and>
   updateTimeBoundsForRow zeroLookupOptions since2015 Map.empty
     = (after2015, Inr zeroLookupOptions) \<and>
   updateTimeBoundsForRow zeroLookupOptions sinceRow [''?from'' \<mapsto> strCell ''x'']
     = (zeroLookupOptions, Inl (Error ''planner.updateTimeBoundsForRow'')) \<and>
   ((\<exists>e. snd (updateTimeBoundsForRow lo cls r) = Inl e)
      \<or> snd (updateTimeBoundsForRow lo cls r) = Inr zeroLookupOptions)"
proof -
  have a: "updateTimeBoundsForRow zeroLookupOptions sinceRow [''?from'' \<mapsto> timeCell year2015]
     = (zeroLookupOptions, Inr zeroLookupOptions)"
    by (simp add: updateTimeBoundsForRow_def updateTimeBounds_def rowAnchor_def sinceRow_def
          emptyClause_def timeCell_def emptyCell_def zeroLookupOptions_def Let_def)
  have b: "updateTimeBoundsForRow zeroLookupOptions since2015 Map.empty
     = (after2015, Inr zeroLookupOptions)"
    by (simp add: updateTimeBoundsForRow_def updateTimeBounds_def rowAnchor_def since2015_def
          emptyClause_def zeroLookupOptions_def after2015_def Let_def)
  have c: "updateTimeBoundsForRow zeroLookupOptions sinceRow [''?from'' \<mapsto> strCell ''x'']
     = (zeroLookupOptions, Inl (Error ''planner.updateTimeBoundsForRow''))"
    by (simp add: updateTimeBoundsForRow_def updateTimeBounds_def rowAnchor_def sinceRow_def
          emptyClause_def strCell_def emptyCell_def zeroLookupOptions_def Let_def)
  have d: "(\<exists>e. snd (updateTimeBoundsForRow lo cls r) = Inl e)
      \<or> snd (updateTimeBoundsForRow lo cls r) = Inr zeroLookupOptions"
    by (auto simp add: updateTimeBoundsForRow_def split_beta updateTimeBounds_returns_zero
          split: sum.splits if_splits)
  from a b c d show ?thesis by blast
qed

subsection \<open>Rows of triples\<close>

text \<open>
  Claim C3.  The specification has \<open>tripleToRow\<close> return no row and no error,
  and \<open>addTriples\<close> emit no row, whenever the row of the triple writes a name
  twice with unequal cells.  For the clause \<open>?x "knows"@[] ?o id ?x\<close> and the triple
  \<open>/u<john> "knows"@[] /u<mary>\<close> the name \<open>?x\<close> is written twice, with the
  node cell of the subject and then with the string cell of the id of the
  object, which are unequal.  The block of \<open>OIDAlias\<close> does not call
  \<open>validBinding\<close> for a node object: \<open>tripleToRow\<close> returns the row and
  \<open>addTriples\<close> adds it to the table.
\<close>

theorem tripleToRow_keeps_inconsistent_row:
  "tripleToRow johnKnowsMary sameName
     = Inr (Some [''?x'' \<mapsto> strCell ''mary'', ''?o'' \<mapsto> emptyCell\<lparr>cell_N := Some mary\<rparr>]) \<and>
   emptyCell\<lparr>cell_N := Some john\<rparr> \<noteq> strCell ''mary'' \<and>
   addTriples [johnKnowsMary] sameName \<lparr>bs = [''?x'', ''?o''], mbs = [''?x'' \<mapsto> True, ''?o'' \<mapsto> True], data = []\<rparr>
     = (\<lparr>bs = [''?x'', ''?o''], mbs = [''?x'' \<mapsto> True, ''?o'' \<mapsto> True],
         data = [[''?x'' \<mapsto> strCell ''mary'', ''?o'' \<mapsto> emptyCell\<lparr>cell_N := Some mary\<rparr>]]\<rparr>, None)"
proof -
  have r: "tripleToRow johnKnowsMary sameName
     = Inr (Some [''?x'' \<mapsto> strCell ''mary'', ''?o'' \<mapsto> emptyCell\<lparr>cell_N := Some mary\<rparr>])"
    by (simp add: tripleToRow_defs sameName_def emptyClause_def johnKnowsMary_def mary_def
          strCell_def fun_upd_twist)
  have p: "passesP sameName johnKnowsMary = Inr True" "passesO sameName johnKnowsMary = Inr True"
    by (simp_all add: passesP_def passesO_def sameName_def emptyClause_def)
  have n: "emptyCell\<lparr>cell_N := Some john\<rparr> \<noteq> strCell ''mary''"
    by (simp add: strCell_def emptyCell_def)
  from r p n show ?thesis by (simp add: AddRow_def)
qed

section \<open>Properties of the predicates\<close>

text \<open>
  Claim C6.  The specification has \<open>Parse\<close> return, for the text \<open>String\<close>
  prints of a predicate, a predicate equal to it.
  \<open>String\<close> prints the id with \<open>%q\<close>, which escapes a double
  quote, and \<open>Parse\<close> takes the text between the first quote and the anchor as
  it is.  For the immutable predicate with the id \<open>a"b\<close> the text printed is
  \<open>"a\"b"@[]\<close>, and parsing it gives the id \<open>a\"b\<close>, another predicate.
\<close>

theorem Parse_String_quoted_id:
  "predicate_String isPrint fmtT quoted
     = [CHR 0x22, CHR ''a'', CHR 0x5C, CHR 0x22, CHR ''b'', CHR 0x22] @ ''@[]'' \<and>
   Parse parseT (predicate_String isPrint fmtT quoted)
     = Inr \<lparr>pred_id = [CHR ''a'', CHR 0x5C, CHR 0x22, CHR ''b''], anchor = None\<rparr> \<and>
   Parse parseT (predicate_String isPrint fmtT quoted) \<noteq> Inr quoted"
  by (simp add: predicate_String_def quoted_def quote_def quoteChar_def Parse_def TrimSpace_def
        spaces_def slice_def Let_def)

section \<open>Anchors of immutable predicates\<close>

lemma foldl_thenDo_Return: "foldl thenDo (Return x) fs = Return x"
  by (induction fs) (simp_all add: thenDo_def)

lemma thenDo_guardedBind:
  "thenDo f (guardedBind w) = (if fst w \<noteq> [] then thenDo f (\<lambda>st. bindCell (fst w) (snd w) st) else f)"
  by (cases f) (simp_all add: thenDo_def guardedBind_def)

lemma foldl_guarded:
  "foldl thenDo f (map guardedBind ws)
     = foldl thenDo f (map (\<lambda>w st. bindCell (fst w) (snd w) st) (filter (\<lambda>(k, c). k \<noteq> []) ws))"
  by (induction ws arbitrary: f) (auto simp add: thenDo_guardedBind)

lemma accepts_Nil: "accepts bnd []"
  by (simp add: accepts_def consistent_def)

lemma accepts_Cons:
  "accepts bnd ((k, c) # ws) = ((bnd k = None \<or> bnd k = Some c) \<and> accepts (bnd(k \<mapsto> c)) ws)"
  unfolding accepts_def consistent_def by (auto split: if_splits)

lemma runWrites_Cons_ok:
  "bnd k = None \<or> bnd k = Some c \<Longrightarrow>
   runWrites (r, bnd) ((k, c) # ws) = runWrites (r(k \<mapsto> c), bnd(k \<mapsto> c)) ws"
  by (auto simp add: runWrites_def thenDo_def bindCell_def validBinding_def split: option.splits)

lemma runWrites_Cons_bad:
  "\<not> (bnd k = None \<or> bnd k = Some c) \<Longrightarrow> runWrites (r, bnd) ((k, c) # ws) = Return (Inr None)"
  by (auto simp add: runWrites_def thenDo_def bindCell_def validBinding_def foldl_thenDo_Return
        split: option.splits)

lemma runWrites_result:
  "(accepts bnd ws \<longrightarrow> (\<exists>st. runWrites (r, bnd) ws = Next st)) \<and>
   (\<not> accepts bnd ws \<longrightarrow> runWrites (r, bnd) ws = Return (Inr None))"
proof (induction ws arbitrary: r bnd)
  case Nil
  show ?case by (simp add: accepts_Nil runWrites_def)
next
  case (Cons w ws)
  obtain k c where w: "w = (k, c)" by (cases w)
  show ?case
  proof (cases "bnd k = None \<or> bnd k = Some c")
    case False
    then show ?thesis
      unfolding w using runWrites_Cons_bad [of bnd k c r ws] accepts_Cons [of bnd k c ws]
      by simp
  next
    case True
    then have r: "runWrites (r, bnd) ((k, c) # ws) = runWrites (r(k \<mapsto> c), bnd(k \<mapsto> c)) ws"
      by (rule runWrites_Cons_ok)
    from True have a: "accepts bnd ((k, c) # ws) = accepts (bnd(k \<mapsto> c)) ws"
      using accepts_Cons [of bnd k c ws] by blast
    show ?thesis
      unfolding w r a by (rule Cons.IH)
  qed
qed

lemma accepts_empty: "accepts Map.empty ws = consistent ws"
  by (auto simp add: accepts_def)

lemma tripleToRow_prefix:
  "foldl thenDo (Next (Map.empty, Map.empty))
     (subjectBlocks cls (triple_S t) @ [blockPBinding cls (triple_P t), blockPAlias cls (triple_P t),
        blockPIDAlias cls (triple_P t)])
   = runWrites (Map.empty, Map.empty) (earlyWrites t cls)"
proof -
  have "subjectBlocks cls (triple_S t) @ [blockPBinding cls (triple_P t), blockPAlias cls (triple_P t),
        blockPIDAlias cls (triple_P t)]
      = map guardedBind
       [(SBinding cls, emptyCell\<lparr>cell_N := Some (triple_S t)\<rparr>),
        (SAlias cls, emptyCell\<lparr>cell_N := Some (triple_S t)\<rparr>),
        (STypeAlias cls, emptyCell\<lparr>cell_S := node_Type (triple_S t)\<rparr>),
        (SIDAlias cls, emptyCell\<lparr>cell_S := node_ID (triple_S t)\<rparr>),
        (PBinding cls, emptyCell\<lparr>cell_P := Some (triple_P t)\<rparr>),
        (PAlias cls, emptyCell\<lparr>cell_P := Some (triple_P t)\<rparr>),
        (PIDAlias cls, emptyCell\<lparr>cell_S := predicate_ID (triple_P t)\<rparr>)]"
    by (simp add: subjectBlocks_def guardedBind_def fun_eq_iff blockSBinding_def blockSAlias_def
          blockSTypeAlias_def blockSIDAlias_def blockPBinding_def blockPAlias_def blockPIDAlias_def)
  then show ?thesis
    by (simp only: foldl_guarded runWrites_def earlyWrites_def)
qed

lemma anchor_blocks_immutable:
  assumes "PAnchorBinding cls \<noteq> [] \<or> PAnchorAlias cls \<noteq> []" "predicate_Type p = Immutable"
  shows "foldl thenDo (Next st) ([blockPAnchorBinding cls p, blockPAnchorAlias cls p] @ rest)
     = Return (Inl (Error ''planner.tripleToRow: non temporal predicate''))"
  using assms
  by (auto simp add: blockPAnchorBinding_def blockPAnchorAlias_def anchorBlock_def thenDo_def
        foldl_thenDo_Return)

text \<open>
  Claim C7, as the specification states it: \<open>tripleToRow\<close> returns an error
  whenever the clause carries an anchor binding or an anchor alias for the
  predicate and the predicate of the triple is immutable.  It fails for the
  clause \<open>?x ?x at ?a ?o\<close>: the predicate cell written under \<open>?x\<close> differs from
  the subject cell, and the row is dropped, without an error, before the
  anchor is looked at.
\<close>

theorem tripleToRow_anchor_counterexample:
  "PAnchorAlias clashBeforeAnchor \<noteq> [] \<and> predicate_Type (triple_P johnKnowsMary) = Immutable \<and>
   tripleToRow johnKnowsMary clashBeforeAnchor = Inr None"
  by (simp add: tripleToRow_defs clashBeforeAnchor_def emptyClause_def johnKnowsMary_def knows_def
      emptyCell_def)

text \<open>
  Claim C7, amended.  \<open>Predicate.TimeAnchor\<close> returns an error iff the
  predicate is immutable.  Whenever the clause carries an anchor binding or an
  anchor alias for the predicate and the predicate of the triple is immutable,
  \<open>tripleToRow\<close> returns no row: it returns an error when the cells written
  before the anchor (for the subject slots and for the binding, the alias and
  the id alias of the predicate) are consistent, and otherwise it drops the row
  without an error.
\<close>

theorem tripleToRow_anchor_of_immutable:
  "((\<exists>e. TimeAnchor p = Inl e) = (predicate_Type p = Immutable)) \<and>
   ((PAnchorBinding cls \<noteq> [] \<or> PAnchorAlias cls \<noteq> []) \<and> predicate_Type (triple_P t) = Immutable
      \<longrightarrow> tripleToRow t cls =
            (if consistent (earlyWrites t cls)
             then Inl (Error ''planner.tripleToRow: non temporal predicate'')
             else Inr None))"
proof -
  have a: "(\<exists>e. TimeAnchor p = Inl e) = (predicate_Type p = Immutable)"
    by (auto simp add: TimeAnchor_def predicate_Type_def split: option.splits)
  have b: "tripleToRow t cls =
            (if consistent (earlyWrites t cls)
             then Inl (Error ''planner.tripleToRow: non temporal predicate'')
             else Inr None)"
    if h: "PAnchorBinding cls \<noteq> [] \<or> PAnchorAlias cls \<noteq> []" "predicate_Type (triple_P t) = Immutable"
  proof -
    let ?pre = "subjectBlocks cls (triple_S t) @ [blockPBinding cls (triple_P t), blockPAlias cls (triple_P t),
        blockPIDAlias cls (triple_P t)]"
    let ?post = "[blockPAnchorBinding cls (triple_P t), blockPAnchorAlias cls (triple_P t)]
        @ objectBlocks cls (triple_O t)"
    have split: "subjectBlocks cls (triple_S t) @ predicateBlocks cls (triple_P t)
          @ objectBlocks cls (triple_O t) = ?pre @ ?post"
      by (simp add: predicateBlocks_def)
    have "tripleToRow t cls = finish (foldl thenDo (Next (Map.empty, Map.empty)) (?pre @ ?post))"
      by (simp only: tripleToRow_def split)
    also have "\<dots> = finish (foldl thenDo (foldl thenDo (Next (Map.empty, Map.empty)) ?pre) ?post)"
      by (rule arg_cong [where f = finish], rule foldl_append)
    also have "\<dots> = finish (foldl thenDo (runWrites (Map.empty, Map.empty) (earlyWrites t cls)) ?post)"
      by (simp only: tripleToRow_prefix)
    finally have run: "tripleToRow t cls
        = finish (foldl thenDo (runWrites (Map.empty, Map.empty) (earlyWrites t cls)) ?post)" .
    show ?thesis
    proof (cases "consistent (earlyWrites t cls)")
      case True
      with runWrites_result [of Map.empty "earlyWrites t cls" Map.empty]
      obtain st where "runWrites (Map.empty, Map.empty) (earlyWrites t cls) = Next st"
        by (auto simp add: accepts_empty)
      with True show ?thesis
        by (simp only: run anchor_blocks_immutable [OF h] finish_def flow.case if_True)
    next
      case False
      with runWrites_result [of Map.empty "earlyWrites t cls" Map.empty]
      have "runWrites (Map.empty, Map.empty) (earlyWrites t cls) = Return (Inr None)"
        by (simp add: accepts_empty)
      with False show ?thesis
        by (simp only: run foldl_thenDo_Return finish_def flow.case if_False)
    qed
  qed
  from a b show ?thesis by blast
qed

theorem tripleToRow_anchor_of_immutable_witness:
  "(\<exists>e. TimeAnchor knows = Inl e) \<and>
   PAnchorAlias anchorOfKnows \<noteq> [] \<and> predicate_Type (triple_P johnKnowsMary) = Immutable \<and>
   consistent (earlyWrites johnKnowsMary anchorOfKnows) \<and>
   tripleToRow johnKnowsMary anchorOfKnows = Inl (Error ''planner.tripleToRow: non temporal predicate'') \<and>
   \<not> consistent (earlyWrites johnKnowsMary clashBeforeAnchor) \<and>
   tripleToRow johnKnowsMary clashBeforeAnchor = Inr None"
proof -
  have i: "predicate_Type knows = Immutable" "predicate_Type (triple_P johnKnowsMary) = Immutable"
    by (simp_all add: predicate_Type_def knows_def johnKnowsMary_def)
  have n: "PAnchorAlias anchorOfKnows \<noteq> []" "PAnchorAlias clashBeforeAnchor \<noteq> []"
    by (simp_all add: anchorOfKnows_def clashBeforeAnchor_def emptyClause_def)
  have c: "consistent (earlyWrites johnKnowsMary anchorOfKnows)"
    by (simp add: consistent_def earlyWrites_def anchorOfKnows_def emptyClause_def)
  have d: "\<not> consistent (earlyWrites johnKnowsMary clashBeforeAnchor)"
    by (simp add: consistent_def earlyWrites_def clashBeforeAnchor_def emptyClause_def emptyCell_def)
  from tripleToRow_anchor_of_immutable [of knows anchorOfKnows johnKnowsMary] i n c
  have "\<exists>e. TimeAnchor knows = Inl e"
    and "tripleToRow johnKnowsMary anchorOfKnows = Inl (Error ''planner.tripleToRow: non temporal predicate'')"
    by simp_all
  moreover from tripleToRow_anchor_of_immutable [of knows clashBeforeAnchor johnKnowsMary] i n d
  have "tripleToRow johnKnowsMary clashBeforeAnchor = Inr None"
    by simp
  ultimately show ?thesis using i n c d by simp
qed

section \<open>The fully bound clause\<close>

lemma passes_total: "\<exists>b. passes wantID temporal lower upper p = Inr b"
  by (auto simp add: passes_def TimeAnchor_def predicate_Type_def split: option.splits)

lemma passesP_total: "\<exists>b. passesP cls t = Inr b"
  using passes_total [of "PID cls" "PTemporal cls" "PLowerBound cls" "PUpperBound cls" "triple_P t"]
  by (auto simp add: passesP_def)

lemma passesO_total: "\<exists>b. passesO cls t = Inr b"
proof (cases "object_Predicate (triple_O t)")
  case (Inl e)
  then show ?thesis by (auto simp add: passesO_def)
next
  case (Inr p)
  with passes_total [of "OID cls" "OTemporal cls" "OLowerBound cls" "OUpperBound cls" p]
  show ?thesis by (auto simp add: passesO_def)
qed

lemma addTriples_single:
  "addTriples [t] cls tbl =
     (case tripleToRow t cls of
        Inl e \<Rightarrow> (tbl, Some e)
      | Inr None \<Rightarrow> (tbl, None)
      | Inr (Some r) \<Rightarrow>
          (if passesP cls t = Inr True \<and> passesO cls t = Inr True then AddRow tbl r else tbl, None))"
proof -
  obtain b1 b2 where b: "passesP cls t = Inr b1" "passesO cls t = Inr b2"
    using passesP_total passesO_total by blast
  show ?thesis
    by (cases b1; cases b2) (simp_all add: b split: sum.splits option.splits)
qed

lemma simpleFetch_exist:
  assumes "clS cls = Some s" "clP cls = Some p" "clO cls = Some ob" "New names = Inr tbl"
    "bindingsOf cls = names"
  shows "snd (simpleFetch bindingsOf [g] cls lo) =
     (case Exist g (Triple s p ob) of
        Inl e \<Rightarrow> Inl e
      | Inr b \<Rightarrow> if b then addAll (Inr [Triple s p ob]) cls tbl else Inr tbl)"
  using assms
  by (simp add: simpleFetch_def split_beta triple_New_def split: sum.splits)

text \<open>
  Claim C4, as the specification states it: for every clause whose \<open>S\<close>,
  \<open>P\<close> and \<open>O\<close> are concrete and every single graph \<open>G\<close>, \<open>simpleFetch\<close>
  returns a table with exactly one row when the triple is in \<open>G\<close>.  It fails
  for the clause \<open>/u<john> "knows"@[] at ?a /u<mary>\<close> on a graph that holds
  the triple: the predicate is immutable, the row cannot be built, and
  \<open>simpleFetch\<close> returns the error and no table.
\<close>

theorem simpleFetch_fully_bound_counterexample:
  "clS fullyBoundAnchor = Some john \<and> clP fullyBoundAnchor = Some knows \<and>
   clO fullyBoundAnchor = Some (ObjNode mary) \<and>
   Exist (memoryGraph [johnKnowsMary]) (Triple john knows (ObjNode mary)) = Inr True \<and>
   snd (simpleFetch clauseNames [memoryGraph [johnKnowsMary]] fullyBoundAnchor zeroLookupOptions)
     = Inl (Error ''planner.tripleToRow: non temporal predicate'')"
proof -
  have c: "clS fullyBoundAnchor = Some john" "clP fullyBoundAnchor = Some knows"
    "clO fullyBoundAnchor = Some (ObjNode mary)"
    by (simp_all add: fullyBoundAnchor_def emptyClause_def)
  have n: "New [''?a''] = Inr \<lparr>bs = [''?a''], mbs = [''?a'' \<mapsto> True], data = []\<rparr>"
    by (simp add: New_def)
  have b: "clauseNames fullyBoundAnchor = [''?a'']"
    by (simp add: clauseNames_def fullyBoundAnchor_def emptyClause_def)
  have e: "Exist (memoryGraph [johnKnowsMary]) (Triple john knows (ObjNode mary)) = Inr True"
    by (simp add: memoryGraph_def johnKnowsMary_def)
  have r: "tripleToRow (Triple john knows (ObjNode mary)) fullyBoundAnchor
      = Inl (Error ''planner.tripleToRow: non temporal predicate'')"
    by (simp add: tripleToRow_defs fullyBoundAnchor_def emptyClause_def knows_def)
  from c e show ?thesis
    by (simp add: simpleFetch_exist [where bindingsOf = clauseNames, OF c n b] addAll_def r)
qed

text \<open>
  Claim C4, amended.  For every clause whose \<open>S\<close>, \<open>P\<close> and \<open>O\<close> are concrete
  and every single graph \<open>G\<close>, \<open>simpleFetch\<close> consults \<open>G.Exist\<close> on the triple
  \<open>(S, P, O)\<close>.  An error of the table creation, of \<open>G.Exist\<close> or of
  \<open>tripleToRow\<close> on a triple that exists is returned in place of a table.
  Otherwise the table returned has zero rows when the triple is not in \<open>G\<close>;
  when it is in \<open>G\<close>, the table has exactly one row, the row of the triple, if
  \<open>tripleToRow\<close> yields a row and the triple passes the id and time filters
  of \<open>addTriples\<close>, and zero rows if the row is dropped or filtered.
\<close>

theorem simpleFetch_fully_bound:
  assumes "clS cls = Some s" "clP cls = Some p" "clO cls = Some ob"
  shows "(\<forall>e. New (bindingsOf cls) = Inl e \<longrightarrow> snd (simpleFetch bindingsOf [g] cls lo) = Inl e) \<and>
    (\<forall>tbl. New (bindingsOf cls) = Inr tbl \<longrightarrow>
       NumRows tbl = 0 \<and>
       (\<forall>e. Exist g (Triple s p ob) = Inl e \<longrightarrow> snd (simpleFetch bindingsOf [g] cls lo) = Inl e) \<and>
       (Exist g (Triple s p ob) = Inr False \<longrightarrow> snd (simpleFetch bindingsOf [g] cls lo) = Inr tbl) \<and>
       (Exist g (Triple s p ob) = Inr True \<longrightarrow>
          (\<forall>e. tripleToRow (Triple s p ob) cls = Inl e \<longrightarrow>
                 snd (simpleFetch bindingsOf [g] cls lo) = Inl e) \<and>
          (tripleToRow (Triple s p ob) cls = Inr None \<longrightarrow>
                 snd (simpleFetch bindingsOf [g] cls lo) = Inr tbl) \<and>
          (\<forall>r. tripleToRow (Triple s p ob) cls = Inr (Some r) \<longrightarrow>
                 NumRows (AddRow tbl r) = 1 \<and>
                 snd (simpleFetch bindingsOf [g] cls lo) =
                   (if passesP cls (Triple s p ob) = Inr True \<and> passesO cls (Triple s p ob) = Inr True
                    then Inr (AddRow tbl r) else Inr tbl))))"
proof -
  have fail: "\<forall>e. New (bindingsOf cls) = Inl e \<longrightarrow> snd (simpleFetch bindingsOf [g] cls lo) = Inl e"
    by (simp add: simpleFetch_def split_beta)
  have ok: "NumRows tbl = 0 \<and>
       (\<forall>e. Exist g (Triple s p ob) = Inl e \<longrightarrow> snd (simpleFetch bindingsOf [g] cls lo) = Inl e) \<and>
       (Exist g (Triple s p ob) = Inr False \<longrightarrow> snd (simpleFetch bindingsOf [g] cls lo) = Inr tbl) \<and>
       (Exist g (Triple s p ob) = Inr True \<longrightarrow>
          (\<forall>e. tripleToRow (Triple s p ob) cls = Inl e \<longrightarrow>
                 snd (simpleFetch bindingsOf [g] cls lo) = Inl e) \<and>
          (tripleToRow (Triple s p ob) cls = Inr None \<longrightarrow>
                 snd (simpleFetch bindingsOf [g] cls lo) = Inr tbl) \<and>
          (\<forall>r. tripleToRow (Triple s p ob) cls = Inr (Some r) \<longrightarrow>
                 NumRows (AddRow tbl r) = 1 \<and>
                 snd (simpleFetch bindingsOf [g] cls lo) =
                   (if passesP cls (Triple s p ob) = Inr True \<and> passesO cls (Triple s p ob) = Inr True
                    then Inr (AddRow tbl r) else Inr tbl)))"
    if n: "New (bindingsOf cls) = Inr tbl" for tbl
  proof -
    from n have d: "data tbl = []"
      by (auto simp add: New_def Let_def split: if_splits)
    note f = simpleFetch_exist [where bindingsOf = bindingsOf and g = g and lo = lo, OF assms n refl]
    have z: "NumRows tbl = 0" "\<And>r. NumRows (AddRow tbl r) = 1"
      by (simp_all add: NumRows_def AddRow_def d)
    show ?thesis
      using z by (auto simp add: f addAll_def addTriples_single simp del: addTriples.simps)
  qed
  from fail ok show ?thesis by blast
qed

theorem simpleFetch_fully_bound_witness:
  "clS fullyBound = Some john \<and> clP fullyBound = Some knows \<and> clO fullyBound = Some (ObjNode mary) \<and>
   New (clauseNames fullyBound) = Inr \<lparr>bs = [''?s''], mbs = [''?s'' \<mapsto> True], data = []\<rparr> \<and>
   Exist (memoryGraph [johnKnowsMary]) (Triple john knows (ObjNode mary)) = Inr True \<and>
   snd (simpleFetch clauseNames [memoryGraph [johnKnowsMary]] fullyBound zeroLookupOptions)
     = Inr \<lparr>bs = [''?s''], mbs = [''?s'' \<mapsto> True],
            data = [[''?s'' \<mapsto> emptyCell\<lparr>cell_N := Some john\<rparr>]]\<rparr> \<and>
   Exist (memoryGraph []) (Triple john knows (ObjNode mary)) = Inr False \<and>
   snd (simpleFetch clauseNames [memoryGraph []] fullyBound zeroLookupOptions)
     = Inr \<lparr>bs = [''?s''], mbs = [''?s'' \<mapsto> True], data = []\<rparr> \<and>
   Exist brokenGraph (Triple john knows (ObjNode mary)) = Inl (Error ''storage'') \<and>
   snd (simpleFetch clauseNames [brokenGraph] fullyBound zeroLookupOptions) = Inl (Error ''storage'') \<and>
   tripleToRow (Triple john knows (ObjNode mary)) fullyBoundAnchor
     = Inl (Error ''planner.tripleToRow: non temporal predicate'') \<and>
   snd (simpleFetch clauseNames [memoryGraph [johnKnowsMary]] fullyBoundAnchor zeroLookupOptions)
     = Inl (Error ''planner.tripleToRow: non temporal predicate'') \<and>
   New (clauseNames fullyBoundClash) = Inl (Error ''table.New'') \<and>
   snd (simpleFetch clauseNames [memoryGraph [johnKnowsMary]] fullyBoundClash zeroLookupOptions)
     = Inl (Error ''table.New'') \<and>
   tripleToRow (Triple john knows (ObjNode mary)) fullyBoundClash = Inr None \<and>
   snd (simpleFetch (\<lambda>c. remdups (clauseNames c)) [memoryGraph [johnKnowsMary]] fullyBoundClash
          zeroLookupOptions)
     = Inr \<lparr>bs = [''?x''], mbs = [''?x'' \<mapsto> True], data = []\<rparr>"
proof -
  let ?t = "Triple john knows (ObjNode mary)"
  have c: "clS fullyBound = Some john" "clP fullyBound = Some knows"
    "clO fullyBound = Some (ObjNode mary)"
    by (simp_all add: fullyBound_def emptyClause_def)
  have ca: "clS fullyBoundAnchor = Some john" "clP fullyBoundAnchor = Some knows"
    "clO fullyBoundAnchor = Some (ObjNode mary)"
    by (simp_all add: fullyBoundAnchor_def emptyClause_def)
  have cc: "clS fullyBoundClash = Some john" "clP fullyBoundClash = Some knows"
    "clO fullyBoundClash = Some (ObjNode mary)"
    by (simp_all add: fullyBoundClash_def emptyClause_def)
  have n: "New (clauseNames fullyBound) = Inr \<lparr>bs = [''?s''], mbs = [''?s'' \<mapsto> True], data = []\<rparr>"
    by (simp add: clauseNames_def fullyBound_def emptyClause_def New_def)
  have na: "New (clauseNames fullyBoundAnchor) = Inr \<lparr>bs = [''?a''], mbs = [''?a'' \<mapsto> True], data = []\<rparr>"
    by (simp add: clauseNames_def fullyBoundAnchor_def emptyClause_def New_def)
  have nc: "New (clauseNames fullyBoundClash) = Inl (Error ''table.New'')"
    by (simp add: clauseNames_def fullyBoundClash_def emptyClause_def New_def)
  have nd: "New (remdups (clauseNames fullyBoundClash))
      = Inr \<lparr>bs = [''?x''], mbs = [''?x'' \<mapsto> True], data = []\<rparr>"
    by (simp add: clauseNames_def fullyBoundClash_def emptyClause_def New_def)
  have e: "Exist (memoryGraph [johnKnowsMary]) ?t = Inr True"
    "Exist (memoryGraph []) ?t = Inr False"
    "Exist brokenGraph ?t = Inl (Error ''storage'')"
    by (simp_all add: memoryGraph_def johnKnowsMary_def brokenGraph_def)
  have r: "tripleToRow ?t fullyBound = Inr (Some [''?s'' \<mapsto> emptyCell\<lparr>cell_N := Some john\<rparr>])"
    by (simp add: tripleToRow_defs fullyBound_def emptyClause_def)
  have ra: "tripleToRow ?t fullyBoundAnchor
      = Inl (Error ''planner.tripleToRow: non temporal predicate'')"
    by (simp add: tripleToRow_defs fullyBoundAnchor_def emptyClause_def knows_def)
  have rc: "tripleToRow ?t fullyBoundClash = Inr None"
    by (simp add: tripleToRow_defs fullyBoundClash_def emptyClause_def emptyCell_def)
  have p: "passesP fullyBound ?t = Inr True" "passesO fullyBound ?t = Inr True"
    by (simp_all add: passesP_def passesO_def fullyBound_def emptyClause_def)
  from simpleFetch_fully_bound [OF c, of clauseNames "memoryGraph [johnKnowsMary]" zeroLookupOptions]
    n e r p
  have one: "snd (simpleFetch clauseNames [memoryGraph [johnKnowsMary]] fullyBound zeroLookupOptions)
     = Inr \<lparr>bs = [''?s''], mbs = [''?s'' \<mapsto> True],
            data = [[''?s'' \<mapsto> emptyCell\<lparr>cell_N := Some john\<rparr>]]\<rparr>"
    by (simp add: AddRow_def)
  from simpleFetch_fully_bound [OF c, of clauseNames "memoryGraph []" zeroLookupOptions] n e
  have zero: "snd (simpleFetch clauseNames [memoryGraph []] fullyBound zeroLookupOptions)
     = Inr \<lparr>bs = [''?s''], mbs = [''?s'' \<mapsto> True], data = []\<rparr>"
    by simp
  from simpleFetch_fully_bound [OF c, of clauseNames brokenGraph zeroLookupOptions] n e
  have broken: "snd (simpleFetch clauseNames [brokenGraph] fullyBound zeroLookupOptions)
     = Inl (Error ''storage'')"
    by simp
  from simpleFetch_fully_bound [OF ca, of clauseNames "memoryGraph [johnKnowsMary]" zeroLookupOptions]
    na e ra
  have anch: "snd (simpleFetch clauseNames [memoryGraph [johnKnowsMary]] fullyBoundAnchor zeroLookupOptions)
     = Inl (Error ''planner.tripleToRow: non temporal predicate'')"
    by simp
  from simpleFetch_fully_bound [OF cc, of clauseNames "memoryGraph [johnKnowsMary]" zeroLookupOptions]
    nc
  have dup: "snd (simpleFetch clauseNames [memoryGraph [johnKnowsMary]] fullyBoundClash zeroLookupOptions)
     = Inl (Error ''table.New'')"
    by simp
  from simpleFetch_fully_bound [OF cc, of "\<lambda>c. remdups (clauseNames c)"
      "memoryGraph [johnKnowsMary]" zeroLookupOptions] nd e rc
  have drop: "snd (simpleFetch (\<lambda>c. remdups (clauseNames c)) [memoryGraph [johnKnowsMary]]
          fullyBoundClash zeroLookupOptions)
     = Inr \<lparr>bs = [''?x''], mbs = [''?x'' \<mapsto> True], data = []\<rparr>"
    by simp
  from c n e one zero broken ra anch nc dup rc drop show ?thesis by blast
qed

end
